theory Spec2Isabelle
  imports Complex_Main
begin

section \<open>The Sundarbans mangrove / built-up mapping script\<close>

text \<open>
  The script is a straight-line pipeline: fetch two raster files, clip, vectorise,
  reproject, buffer, overlay, render a map, print area statistics. What the script itself
  decides (the existence checks, the filter loop of \<open>shapes_to_gdf\<close>, the order of the
  geometry steps, the copy before the buffer, the statistics dictionary and its print loop)
  is embedded below. The numeric geometry kernels it calls (coordinate transformation,
  buffering and intersection of one polygon, the area of one polygon, the decoding of one
  GeoJSON-like mapping into a polygon, the floating-point sum and division of the
  statistics, the decoding of a zip archive) are parameters.
  What the geopandas calls do with the rows and the CRS attribute of a layer (\<open>to_crs\<close>,
  \<open>buffer\<close>, the assignment of the geometry column, \<open>overlay\<close>, \<open>copy\<close>) is written
  down from the behaviour the library documents, next to each definition. The clipping of
  step 5 and the map of step 8 are single calls into rioxarray and folium and are not
  embedded; the functions below start from what lines 51 to 60 hand over.
\<close>

subsection \<open>Step 1 to 3: files, network, the fetcher\<close>

type_synonym path = string
type_synonym url = string
type_synonym bytes = string

text \<open>
  \<open>requests.get\<close> either raises (no connection, DNS failure, ...) or returns a response
  object with a status code and a body. It does not raise on a 4xx or 5xx status; the
  script never calls \<open>raise_for_status\<close> and never reads the status.
\<close>

datatype http_result = ConnectionError | Response nat bytes

text \<open>
  What the disk does when a path is opened with mode \<open>'wb'\<close> and written: the open may
  fail (nothing is created; during the extraction this also stands for parent directories
  that cannot be made), or the open succeeds (the file exists and is empty) and the write
  fails after some prefix of the data, or all of it is written.
\<close>

datatype disk_fault = NoFault | OpenFails | WriteFails nat

datatype error = RequestException | OSError | BadZipFile | ValueError

text \<open>
  A member of a zip archive as \<open>extractall\<close> meets it, with its file name: its data
  decompress and pass the CRC check, or its local header is rejected when the member is
  opened, or the CRC check fails at the end of the data; in the last case the bytes are the
  data copied to the target before the check fails.
\<close>

datatype member = Intact string bytes | BadHeader string | BadCRC string bytes

text \<open>
  \<open>unzip\<close> is the constructor \<open>zipfile.ZipFile\<close>: \<open>None\<close> when it raises \<open>BadZipFile\<close>,
  else the members in the order in which \<open>extractall\<close> visits them.
\<close>

record env =
  http_get :: "url \<Rightarrow> http_result"
  disk :: "path \<Rightarrow> disk_fault"
  unzip :: "bytes \<Rightarrow> member list option"

record world =
  files :: "path \<rightharpoonup> bytes"
  requests :: "url list"
  stdout :: "string list"

definition print :: "string \<Rightarrow> world \<Rightarrow> world" where
  "print s w = w\<lparr>stdout := stdout w @ [s]\<rparr>"

definition exists_path :: "world \<Rightarrow> path \<Rightarrow> bool" where
  "exists_path w p = (files w p \<noteq> None)"

definition requests_get :: "env \<Rightarrow> url \<Rightarrow> world \<Rightarrow> http_result \<times> world" where
  "requests_get e u w = (http_get e u, w\<lparr>requests := requests w @ [u]\<rparr>)"

text \<open>\<open>with open(dest, 'wb') as f: f.write(content)\<close>\<close>

definition write_file :: "env \<Rightarrow> path \<Rightarrow> bytes \<Rightarrow> world \<Rightarrow> (error + unit) \<times> world" where
  "write_file e dest content w =
     (case disk e dest of
        OpenFails \<Rightarrow> (Inl OSError, w)
      | WriteFails n \<Rightarrow> (Inl OSError, w\<lparr>files := (files w)(dest \<mapsto> take n content)\<rparr>)
      | NoFault \<Rightarrow> (Inr (), w\<lparr>files := (files w)(dest \<mapsto> content)\<rparr>))"

definition data_dir :: path where
  "data_dir = ''data''"

definition figshare_url :: url where
  "figshare_url = ''https://figshare.com/ndownloader/files/41881913''"

definition ghsl_url :: url where
  "ghsl_url = ''https://jeodpp.jrc.ec.europa.eu/ftp/jrc-opendata/GHSL/GHS_BUILT_LDS2020/GHS_BUILT_LDS2020_GLOBE_R2023A/GHS_BUILT_LDS2020_GLOBE_R2023A_3857_30ss/V1-0/GHS_BUILT_LDS2020_GLOBE_R2023A_3857_30ss_V1_0.zip''"

definition path_join :: "path \<Rightarrow> string \<Rightarrow> path" where
  "path_join d n = d @ ''/'' @ n"

definition mangrove_tif :: path where
  "mangrove_tif = path_join data_dir ''AnnualMangrove_2022.tif''"

definition ghsl_zip :: path where
  "ghsl_zip = path_join data_dir ''GHSL_BUILT_2020.zip''"

definition ghsl_tif :: path where
  "ghsl_tif = path_join data_dir ''GHS_BUILT_LDS2020_GLOBE_R2023A_3857_30ss_V1_0.tif''"

text \<open>Lines 26 to 32.\<close>

definition download_file :: "env \<Rightarrow> url \<Rightarrow> path \<Rightarrow> world \<Rightarrow> (error + unit) \<times> world" where
  "download_file e u dest w =
     (if \<not> exists_path w dest then
        (let w1 = print (''Downloading '' @ u @ ''...'') w in
         case requests_get e u w1 of
           (ConnectionError, w2) \<Rightarrow> (Inl RequestException, w2)
         | (Response status content, w2) \<Rightarrow>
             (case write_file e dest content w2 of
                (Inl err, w3) \<Rightarrow> (Inl err, w3)
              | (Inr _, w3) \<Rightarrow> (Inr (), print (''Saved to '' @ dest) w3)))
      else (Inr (), w))"

text \<open>
  \<open>ZipFile._extract_member\<close> on a POSIX system. The file name is split at the slashes,
  the empty, \<open>.\<close> and \<open>..\<close> components are dropped, and the rest is joined below the
  directory. A name that ends in a slash is a directory entry: no file is written, and
  \<open>mkdir\<close> fails when a file has the name. Otherwise the member is opened (a bad header
  raises), then the target is opened for writing and the data are copied; a failed CRC
  check raises after the copy. A member without any valid component has the directory
  itself as target, which cannot be opened for writing.
\<close>

fun split_on :: "char \<Rightarrow> string \<Rightarrow> string list" where
  "split_on c [] = [[]]"
| "split_on c (x # xs) =
     (if x = c then [] # split_on c xs
      else (case split_on c xs of
              [] \<Rightarrow> [[x]]
            | p # ps \<Rightarrow> (x # p) # ps))"

fun join_with :: "string \<Rightarrow> string list \<Rightarrow> string" where
  "join_with sep [] = []"
| "join_with sep [x] = x"
| "join_with sep (x # y # ys) = x @ sep @ join_with sep (y # ys)"

definition arcname :: "string \<Rightarrow> string" where
  "arcname n =
     join_with ''/'' (filter (\<lambda>x. x \<noteq> [] \<and> x \<noteq> ''.'' \<and> x \<noteq> ''..'') (split_on CHR ''/'' n))"

definition member_name :: "member \<Rightarrow> string" where
  "member_name m = (case m of Intact n c \<Rightarrow> n | BadHeader n \<Rightarrow> n | BadCRC n c \<Rightarrow> n)"

definition is_dir :: "string \<Rightarrow> bool" where
  "is_dir n = (n \<noteq> [] \<and> last n = CHR ''/'')"

definition extract_member :: "env \<Rightarrow> path \<Rightarrow> member \<Rightarrow> world \<Rightarrow> (error + unit) \<times> world" where
  "extract_member e d m w =
     (let arc = arcname (member_name m);
          targetpath = (if arc = [] then d else path_join d arc) in
      if is_dir (member_name m) then
        (if arc \<noteq> [] \<and> exists_path w targetpath then (Inl OSError, w) else (Inr (), w))
      else
        (case m of
           BadHeader n \<Rightarrow> (Inl BadZipFile, w)
         | Intact n c \<Rightarrow>
             if arc = [] then (Inl OSError, w) else write_file e targetpath c w
         | BadCRC n c \<Rightarrow>
             if arc = [] then (Inl OSError, w)
             else (case write_file e targetpath c w of
                     (Inl err, w1) \<Rightarrow> (Inl err, w1)
                   | (Inr _, w1) \<Rightarrow> (Inl BadZipFile, w1))))"

text \<open>
  \<open>ZipFile.extractall(data_dir)\<close>: the members are extracted one after the other; the
  first error raises, and what has been written until then stays.
\<close>

fun extractall :: "env \<Rightarrow> path \<Rightarrow> member list \<Rightarrow> world \<Rightarrow> (error + unit) \<times> world" where
  "extractall e d [] w = (Inr (), w)"
| "extractall e d (m # ms) w =
     (case extract_member e d m w of
        (Inl err, w1) \<Rightarrow> (Inl err, w1)
      | (Inr _, w1) \<Rightarrow> extractall e d ms w1)"

text \<open>Lines 38 to 43.\<close>

definition fetch_ghsl :: "env \<Rightarrow> world \<Rightarrow> (error + unit) \<times> world" where
  "fetch_ghsl e w =
     (if \<not> exists_path w ghsl_tif then
        (let w1 = print ''Downloading GHSL built-up dataset...'' w in
         case requests_get e ghsl_url w1 of
           (ConnectionError, w2) \<Rightarrow> (Inl RequestException, w2)
         | (Response status content, w2) \<Rightarrow>
             (case unzip e content of
                None \<Rightarrow> (Inl BadZipFile, w2)
              | Some members \<Rightarrow>
                  (case extractall e data_dir members w2 of
                     (Inl err, w3) \<Rightarrow> (Inl err, w3)
                   | (Inr _, w3) \<Rightarrow> (Inr (), print ''Unzipped GHSL data.'' w3))))
      else (Inr (), w))"

text \<open>Lines 35 to 43: both fetches in order; the first error ends the run.\<close>

definition fetch_all :: "env \<Rightarrow> world \<Rightarrow> (error + unit) \<times> world" where
  "fetch_all e w =
     (case download_file e figshare_url mangrove_tif w of
        (Inl err, w1) \<Rightarrow> (Inl err, w1)
      | (Inr _, w1) \<Rightarrow> fetch_ghsl e w1)"

subsection \<open>Vector layers and the geometry kernels\<close>

datatype crs = EPSG nat | OtherCRS string

text \<open>
  A GeoDataFrame with only a geometry column: the rows in order, and the CRS attribute
  (\<open>None\<close> when the raster carried no CRS).
\<close>

record 'g layer =
  geometry :: "'g list"
  crs :: "crs option"

text \<open>
  The kernels of shapely, pyproj and GEOS that act on one geometry. \<open>geom_shape\<close> is
  \<open>shapely.geometry.shape\<close> (\<open>None\<close> when it raises); \<open>geom_intersection\<close> is \<open>None\<close> when two
  geometries have no polygonal intersection (disjoint, or touching in a point or a line,
  which the overlay drops). An area is a double, taken as the real number it stands for.
  The last two kernels are the floating-point operations of the statistics with their
  rounding: \<open>fl_sum\<close> is the sum that pandas computes over a column of doubles, and
  \<open>fl_div\<close> is the division of one double by another.
\<close>

record ('s, 'g) geo =
  geom_shape :: "'s \<Rightarrow> 'g option"
  geom_transform :: "crs \<Rightarrow> crs \<Rightarrow> 'g \<Rightarrow> 'g"
  geom_buffer :: "real \<Rightarrow> 'g \<Rightarrow> 'g"
  geom_intersection :: "'g \<Rightarrow> 'g \<Rightarrow> 'g option"
  geom_area :: "'g \<Rightarrow> real"
  fl_sum :: "real list \<Rightarrow> real"
  fl_div :: "real \<Rightarrow> real \<Rightarrow> real"

subsection \<open>Step 6: \<open>shapes_to_gdf\<close>\<close>

text \<open>
  Lines 64 to 69, the loop with its accumulator \<open>geoms\<close>: a pair is appended when its value
  equals 1 and \<open>shape\<close> returns; when \<open>shape\<close> raises, the \<open>except\<close> clause continues.
\<close>

fun shapes_loop :: "('s \<Rightarrow> 'g option) \<Rightarrow> ('s \<times> real) list \<Rightarrow> 'g list \<Rightarrow> 'g list" where
  "shapes_loop sh [] geoms = geoms"
| "shapes_loop sh ((s, v) # rest) geoms =
     (if v = 1 then
        (case sh s of
           Some g \<Rightarrow> shapes_loop sh rest (geoms @ [g])
         | None \<Rightarrow> shapes_loop sh rest geoms)
      else shapes_loop sh rest geoms)"

definition shapes_to_gdf :: "('s, 'g) geo \<Rightarrow> ('s \<times> real) list \<Rightarrow> crs option \<Rightarrow> 'g layer" where
  "shapes_to_gdf lib shapes_gen c =
     \<lparr>geometry = shapes_loop (geom_shape lib) shapes_gen [], crs = c\<rparr>"

subsection \<open>Step 7: reprojection, buffer, overlay\<close>

text \<open>
  \<open>GeoDataFrame.to_crs\<close>: raises \<open>ValueError\<close> on a layer without CRS, returns the layer as
  it is when the CRS is already the target, and transforms every row otherwise.
\<close>

definition to_crs :: "('s, 'g) geo \<Rightarrow> crs \<Rightarrow> 'g layer \<Rightarrow> error + 'g layer" where
  "to_crs lib target df =
     (case crs df of
        None \<Rightarrow> Inl ValueError
      | Some c \<Rightarrow>
          if c = target then Inr df
          else Inr \<lparr>geometry = map (geom_transform lib c target) (geometry df),
                    crs = Some target\<rparr>)"

text \<open>\<open>df.buffer(d)\<close>: the buffered geometry of every row, in row order.\<close>

definition buffer :: "('s, 'g) geo \<Rightarrow> real \<Rightarrow> 'g layer \<Rightarrow> 'g list" where
  "buffer lib d df = map (geom_buffer lib d) (geometry df)"

text \<open>\<open>df['geometry'] = gs\<close>: the geometry column is replaced, the CRS attribute stays.\<close>

definition set_geometry :: "'g list \<Rightarrow> 'g layer \<Rightarrow> 'g layer" where
  "set_geometry gs df = df\<lparr>geometry := gs\<rparr>"

text \<open>
  \<open>gpd.overlay(df1, df2, how='intersection')\<close>: one output row for every pair of a row of
  \<open>df1\<close> and a row of \<open>df2\<close> that have a polygonal intersection, ordered by the row of
  \<open>df1\<close> and then by the row of \<open>df2\<close>; the result carries the CRS of \<open>df1\<close>.
\<close>

definition overlay :: "('s, 'g) geo \<Rightarrow> 'g layer \<Rightarrow> 'g layer \<Rightarrow> 'g layer" where
  "overlay lib df1 df2 =
     \<lparr>geometry = concat (map (\<lambda>a. List.map_filter (geom_intersection lib a) (geometry df2))
                               (geometry df1)),
      crs = crs df1\<rparr>"

subsection \<open>Lines 80 and 81 on the object store\<close>

text \<open>
  GeoDataFrames are mutable objects and variables hold references to them. \<open>copy()\<close>
  allocates a new object with the same rows and CRS; the item assignment of line 81
  mutates the object its variable refers to.
\<close>

type_synonym ref = nat

record 'g heap =
  objs :: "ref \<rightharpoonup> 'g layer"
  next_ref :: ref
  vars :: "string \<rightharpoonup> ref"

definition df_copy :: "ref \<Rightarrow> 'g heap \<Rightarrow> (ref \<times> 'g heap) option" where
  "df_copy r h =
     (case objs h r of
        None \<Rightarrow> None
      | Some df \<Rightarrow> Some (next_ref h, h\<lparr>objs := (objs h)(next_ref h \<mapsto> df),
                                       next_ref := Suc (next_ref h)\<rparr>))"

definition df_setitem_geometry :: "ref \<Rightarrow> 'g list \<Rightarrow> 'g heap \<Rightarrow> 'g heap option" where
  "df_setitem_geometry r gs h =
     (case objs h r of
        None \<Rightarrow> None
      | Some df \<Rightarrow> Some (h\<lparr>objs := (objs h)(r \<mapsto> set_geometry gs df)\<rparr>))"

definition assign :: "string \<Rightarrow> ref \<Rightarrow> 'g heap \<Rightarrow> 'g heap" where
  "assign x r h = h\<lparr>vars := (vars h)(x \<mapsto> r)\<rparr>"

definition buffer_distance :: real where
  "buffer_distance = 5 / 100"

text \<open>
  Line 80, \<open>mangrove_buffer = gdf_mangrove.copy()\<close>, then line 81,
  \<open>mangrove_buffer['geometry'] = mangrove_buffer.buffer(0.05)\<close>. \<open>None\<close> stands for a
  variable that is unbound or dangling (the script would stop with an exception).
\<close>

definition buffer_step :: "('s, 'g) geo \<Rightarrow> 'g heap \<Rightarrow> 'g heap option" where
  "buffer_step lib h =
     (case vars h ''gdf_mangrove'' of
        None \<Rightarrow> None
      | Some r \<Rightarrow>
          (case df_copy r h of
             None \<Rightarrow> None
           | Some (r', h1) \<Rightarrow>
               (let h2 = assign ''mangrove_buffer'' r' h1 in
                case vars h2 ''mangrove_buffer'' of
                  None \<Rightarrow> None
                | Some rb \<Rightarrow>
                    (case objs h2 rb of
                       None \<Rightarrow> None
                     | Some dfb \<Rightarrow>
                         df_setitem_geometry rb (buffer lib buffer_distance dfb) h2))))"

text \<open>The value the variable \<open>x\<close> denotes.\<close>

definition deref :: "'g heap \<Rightarrow> string \<Rightarrow> 'g layer option" where
  "deref h x = (case vars h x of None \<Rightarrow> None | Some r \<Rightarrow> objs h r)"

subsection \<open>Steps 6, 7 and 9 as one function\<close>

definition equal_area_crs :: crs where
  "equal_area_crs = EPSG 6933"

text \<open>\<open>df.area.sum()\<close>: the area of every row, then the sum of the column.\<close>

definition area_sum :: "('s, 'g) geo \<Rightarrow> 'g layer \<Rightarrow> real" where
  "area_sum lib df = fl_sum lib (map (geom_area lib) (geometry df))"

text \<open>The superscript two of the labels, as the two bytes of its UTF-8 encoding.\<close>

definition sup2 :: string where
  "sup2 = [char_of (194 :: nat), char_of (178 :: nat)]"

text \<open>Every layer the script binds, and the \<open>stats\<close> dictionary in insertion order.\<close>

record 'g pipeline =
  gdf_mangrove_src :: "'g layer"
  gdf_builtup_src :: "'g layer"
  gdf_mangrove :: "'g layer"
  gdf_builtup :: "'g layer"
  mangrove_buffer :: "'g layer"
  overlap :: "'g layer"
  gdf_mangrove_eq :: "'g layer"
  gdf_builtup_eq :: "'g layer"
  overlap_eq :: "'g layer"
  stats :: "(string \<times> real) list"

text \<open>
  Lines 72 to 83 and 105 to 114. The arguments are what lines 51 to 60 hand over: the
  two shape sequences and the CRS of the two rasters. The map of step 8 reads the layers
  and is left out.
\<close>

definition geometry_steps ::
  "('s, 'g) geo \<Rightarrow> ('s \<times> real) list \<Rightarrow> crs option \<Rightarrow> ('s \<times> real) list \<Rightarrow> crs option
     \<Rightarrow> error + 'g pipeline" where
  "geometry_steps lib mangrove_shapes mangrove_crs builtup_shapes builtup_crs =
     (let m0 = shapes_to_gdf lib mangrove_shapes mangrove_crs;
          b0 = shapes_to_gdf lib builtup_shapes builtup_crs in
      case to_crs lib (EPSG 4326) m0 of
        Inl err \<Rightarrow> Inl err
      | Inr m \<Rightarrow>
     (case to_crs lib (EPSG 4326) b0 of
        Inl err \<Rightarrow> Inl err
      | Inr b \<Rightarrow>
     (let mb = set_geometry (buffer lib buffer_distance m) m;
          ov = overlay lib b mb in
      case to_crs lib equal_area_crs m of
        Inl err \<Rightarrow> Inl err
      | Inr m_eq \<Rightarrow>
     (case to_crs lib equal_area_crs b of
        Inl err \<Rightarrow> Inl err
      | Inr b_eq \<Rightarrow>
     (case to_crs lib equal_area_crs ov of
        Inl err \<Rightarrow> Inl err
      | Inr ov_eq \<Rightarrow>
          Inr \<lparr>gdf_mangrove_src = m0, gdf_builtup_src = b0,
               gdf_mangrove = m, gdf_builtup = b,
               mangrove_buffer = mb, overlap = ov,
               gdf_mangrove_eq = m_eq, gdf_builtup_eq = b_eq, overlap_eq = ov_eq,
               stats =
                 [(''Mangrove area (km'' @ sup2 @ '')'',
                   fl_div lib (area_sum lib m_eq) 1000000),
                  (''Built-up area (km'' @ sup2 @ '')'',
                   fl_div lib (area_sum lib b_eq) 1000000),
                  (''Built-up within 5 km (km'' @ sup2 @ '')'',
                   fl_div lib (area_sum lib ov_eq) 1000000)]\<rparr>)))))"

subsection \<open>Step 9: printing\<close>

definition digit_char :: "nat \<Rightarrow> char" where
  "digit_char d = ''0123456789'' ! (d mod 10)"

fun show_nat :: "nat \<Rightarrow> string" where
  "show_nat n = (if n < 10 then [digit_char n] else show_nat (n div 10) @ [digit_char (n mod 10)])"

declare show_nat.simps [simp del]

definition round_half_even :: "real \<Rightarrow> int" where
  "round_half_even x =
     (let f = \<lfloor>x\<rfloor>; r = x - of_int f in
      if r < 1 / 2 then f else if 1 / 2 < r then f + 1 else if even f then f else f + 1)"

text \<open>
  The format specification \<open>.2f\<close> on a finite double: an optional minus sign, the integer
  digits, a point and two fraction digits. The digits are those of the exact value of the
  double rounded to the nearest hundredth, a tie going to the even neighbour.
\<close>

definition fmt_2f :: "real \<Rightarrow> string" where
  "fmt_2f v =
     (let n = nat (round_half_even (\<bar>v\<bar> * 100)) in
      (if v < 0 then ''-'' else []) @ show_nat (n div 100) @ ''.'' @
      [digit_char (n mod 100 div 10), digit_char (n mod 10)])"

text \<open>Lines 117 and 118: one \<open>print\<close> for every item of the dictionary.\<close>

fun print_stats :: "(string \<times> real) list \<Rightarrow> world \<Rightarrow> world" where
  "print_stats [] w = w"
| "print_stats ((k, v) # rest) w = print_stats rest (print (''  '' @ k @ '': '' @ fmt_2f v) w)"

definition is_digit :: "char \<Rightarrow> bool" where
  "is_digit c = (c \<in> set ''0123456789'')"

text \<open>A line of the report: two blanks, the label, a colon and a blank, then a number
  that ends in a point and two digits.\<close>

definition two_decimals :: "string \<Rightarrow> bool" where
  "two_decimals s =
     (\<exists>pre d1 d2. s = pre @ ''.'' @ [d1, d2] \<and> is_digit d1 \<and> is_digit d2 \<and>
                   pre \<noteq> [] \<and> is_digit (last pre))"

text \<open>
  Reading a printed number back: the digits before the point and the two digits after
  it, with the sign.
\<close>

definition digit_val :: "char \<Rightarrow> nat" where
  "digit_val c = of_char c - 48"

definition read_nat :: "string \<Rightarrow> nat" where
  "read_nat s = foldl (\<lambda>a c. 10 * a + digit_val c) 0 s"

definition read_2f :: "string \<Rightarrow> real" where
  "read_2f s =
     (let neg = (s \<noteq> [] \<and> hd s = CHR ''-'');
          body = (if neg then tl s else s);
          ip = takeWhile (\<lambda>c. c \<noteq> CHR ''.'') body;
          fp = drop (Suc (length ip)) body
      in (if neg then - 1 else 1) * (real (read_nat ip) + real (read_nat fp) / 100))"

subsection \<open>The kernels on axis-parallel rectangles\<close>

text \<open>
  A small instance of the kernels, on which the definitions above can be run: rectangles
  given by their bounds, a square buffer, the identity as coordinate transformation, and
  exact addition and division in the place of the rounding ones. A second instance
  transforms from EPSG:4326 to EPSG:6933 by stretching both axes, 111000 metres to the
  degree.
\<close>

datatype box = Box real real real real

definition box_shape :: "real \<times> real \<times> real \<times> real \<Rightarrow> box option" where
  "box_shape t = (case t of (a, b, c, d) \<Rightarrow> if a < c \<and> b < d then Some (Box a b c d) else None)"

fun box_buffer :: "real \<Rightarrow> box \<Rightarrow> box" where
  "box_buffer r (Box a b c d) = Box (a - r) (b - r) (c + r) (d + r)"

fun box_intersection :: "box \<Rightarrow> box \<Rightarrow> box option" where
  "box_intersection (Box a b c d) (Box a' b' c' d') =
     (if max a a' < min c c' \<and> max b b' < min d d'
      then Some (Box (max a a') (max b b') (min c c') (min d d')) else None)"

fun box_area :: "box \<Rightarrow> real" where
  "box_area (Box a b c d) = (c - a) * (d - b)"

definition box_lib :: "(real \<times> real \<times> real \<times> real, box) geo" where
  "box_lib = \<lparr>geom_shape = box_shape, geom_transform = (\<lambda>_ _ g. g), geom_buffer = box_buffer,
              geom_intersection = box_intersection, geom_area = box_area,
              fl_sum = sum_list, fl_div = (\<lambda>a b. a / b)\<rparr>"

fun box_scale :: "real \<Rightarrow> box \<Rightarrow> box" where
  "box_scale k (Box a b c d) = Box (k * a) (k * b) (k * c) (k * d)"

definition box_transform :: "crs \<Rightarrow> crs \<Rightarrow> box \<Rightarrow> box" where
  "box_transform c t g = (if c = EPSG 4326 \<and> t = EPSG 6933 then box_scale 111000 g else g)"

definition box_lib_metric :: "(real \<times> real \<times> real \<times> real, box) geo" where
  "box_lib_metric = box_lib\<lparr>geom_transform := box_transform\<rparr>"

subsection \<open>Concrete environments\<close>

text \<open>A machine without network, and a server that answers every request with status 404;
  the second has a read-only path and a path on a disk that fills up after three bytes.\<close>

definition env_offline :: env where
  "env_offline = \<lparr>http_get = (\<lambda>u. ConnectionError), disk = (\<lambda>p. NoFault), unzip = (\<lambda>b. None)\<rparr>"

definition env_404 :: env where
  "env_404 = \<lparr>http_get = (\<lambda>u. Response 404 ''Not Found''),
              disk = (\<lambda>p. if p = ''ro'' then OpenFails
                           else if p = ''full'' then WriteFails 3 else NoFault),
              unzip = (\<lambda>b. None)\<rparr>"

text \<open>A server that delivers an archive of three files, with a disk that fills up in the
  second; and one that delivers an archive whose second member fails its CRC check, with
  a third target that cannot be opened.\<close>

definition env_zip_full :: env where
  "env_zip_full =
     \<lparr>http_get = (\<lambda>u. Response 200 ''PK''),
      disk = (\<lambda>p. if p = ''data/b.tif'' then WriteFails 2 else NoFault),
      unzip = (\<lambda>b. Some [Intact ''a.tif'' ''AAAA'', Intact ''b.tif'' ''BBBB'',
                          Intact ''c.tif'' ''CCCC''])\<rparr>"

definition env_zip_crc :: env where
  "env_zip_crc =
     \<lparr>http_get = (\<lambda>u. Response 200 ''PK''),
      disk = (\<lambda>p. if p = ''data/c.tif'' then OpenFails else NoFault),
      unzip = (\<lambda>b. Some [Intact ''a.tif'' ''AAAA'', BadCRC ''../sub//b.tif'' ''BB'',
                          Intact ''c.tif'' ''CCCC''])\<rparr>"

definition world_empty :: world where
  "world_empty = \<lparr>files = Map.empty, requests = [], stdout = []\<rparr>"

definition world_cached :: world where
  "world_cached = \<lparr>files = [mangrove_tif \<mapsto> ''II*'', ghsl_tif \<mapsto> ''MM*''],
                    requests = [], stdout = []\<rparr>"

subsection \<open>Concrete layers\<close>

text \<open>
  A raster of three cells in a row, each a hundredth of a degree wide. The mangrove mask
  is set on the first and the third cell, the built-up mask on the cell between them.
  Tracing the masks gives one shape for each cell.
\<close>

definition mangrove_shapes_demo :: "((real \<times> real \<times> real \<times> real) \<times> real) list" where
  "mangrove_shapes_demo =
     [((0, 0, 1 / 100, 1 / 100), 1),
      ((1 / 100, 0, 2 / 100, 1 / 100), 0),
      ((2 / 100, 0, 3 / 100, 1 / 100), 1)]"

definition builtup_shapes_demo :: "((real \<times> real \<times> real \<times> real) \<times> real) list" where
  "builtup_shapes_demo =
     [((0, 0, 1 / 100, 1 / 100), 0),
      ((1 / 100, 0, 2 / 100, 1 / 100), 1),
      ((2 / 100, 0, 3 / 100, 1 / 100), 0)]"

text \<open>A store in which \<open>gdf_mangrove\<close> is bound to the only object.\<close>

definition heap_demo :: "box heap" where
  "heap_demo =
     \<lparr>objs = [0 \<mapsto> \<lparr>geometry = [Box 0 0 1 1], crs = Some (EPSG 4326)\<rparr>],
      next_ref = 1,
      vars = [''gdf_mangrove'' \<mapsto> 0]\<rparr>"

section \<open>Properties\<close>

subsection \<open>The fetcher\<close>

lemma requests_print [simp]: "requests (print s w) = requests w"
  by (simp add: print_def)

lemma files_print [simp]: "files (print s w) = files w"
  by (simp add: print_def)

lemma write_file_requests: "requests (snd (write_file e p c w)) = requests w"
  by (simp add: write_file_def split: disk_fault.splits)

lemma extract_member_requests: "requests (snd (extract_member e d m w)) = requests w"
proof -
  have wf: "requests (snd (write_file e p c w)) = requests w" for p c
    by (rule write_file_requests)
  have bc: "requests (snd (case write_file e p c w of
                (Inl err, w1) \<Rightarrow> (Inl err, w1)
              | (Inr _, w1) \<Rightarrow> (Inl BadZipFile, w1))) = requests w" for p c
    using wf[of p c] by (cases "write_file e p c w") (auto split: sum.splits)
  show ?thesis
    by (cases m) (simp_all add: extract_member_def Let_def wf bc)
qed

lemma extractall_requests: "requests (snd (extractall e d ms w)) = requests w"
proof (induction ms arbitrary: w)
  case Nil
  show ?case by simp
next
  case (Cons m ms)
  obtain r w1 where em: "extract_member e d m w = (r, w1)"
    by (cases "extract_member e d m w")
  have rq: "requests w1 = requests w"
    using extract_member_requests[of e d m w] em by simp
  show ?case
  proof (cases r)
    case (Inl err)
    then show ?thesis using em rq by simp
  next
    case (Inr u)
    then show ?thesis using em rq Cons.IH[of w1] by simp
  qed
qed

lemma download_file_absent:
  assumes "\<not> exists_path w dest"
  shows "download_file e u dest w =
     (case http_get e u of
        ConnectionError \<Rightarrow>
          (Inl RequestException,
           (print (''Downloading '' @ u @ ''...'') w)\<lparr>requests := requests w @ [u]\<rparr>)
      | Response st c \<Rightarrow>
          (case write_file e dest c
                  ((print (''Downloading '' @ u @ ''...'') w)\<lparr>requests := requests w @ [u]\<rparr>) of
             (Inl err, w3) \<Rightarrow> (Inl err, w3)
           | (Inr _, w3) \<Rightarrow> (Inr (), print (''Saved to '' @ dest) w3)))"
  using assms
  by (simp add: download_file_def requests_get_def Let_def split: http_result.splits)

lemma fetch_ghsl_absent:
  assumes "\<not> exists_path w ghsl_tif"
  shows "fetch_ghsl e w =
     (case http_get e ghsl_url of
        ConnectionError \<Rightarrow>
          (Inl RequestException,
           (print ''Downloading GHSL built-up dataset...'' w)\<lparr>requests := requests w @ [ghsl_url]\<rparr>)
      | Response st c \<Rightarrow>
          (case unzip e c of
             None \<Rightarrow>
               (Inl BadZipFile,
                (print ''Downloading GHSL built-up dataset...'' w)\<lparr>requests := requests w @ [ghsl_url]\<rparr>)
           | Some members \<Rightarrow>
               (case extractall e data_dir members
                       ((print ''Downloading GHSL built-up dataset...'' w)\<lparr>requests := requests w @ [ghsl_url]\<rparr>) of
                  (Inl err, w3) \<Rightarrow> (Inl err, w3)
                | (Inr _, w3) \<Rightarrow> (Inr (), print ''Unzipped GHSL data.'' w3))))"
  using assms
  by (simp add: fetch_ghsl_def requests_get_def Let_def split: http_result.splits option.splits)

lemma fetch_ghsl_requests:
  assumes "\<not> exists_path w ghsl_tif"
  shows "requests (snd (fetch_ghsl e w)) = requests w @ [ghsl_url]"
proof (cases "http_get e ghsl_url")
  case ConnectionError
  then show ?thesis by (simp add: fetch_ghsl_absent[OF assms] print_def)
next
  case (Response st c)
  show ?thesis
  proof (cases "unzip e c")
    case None
    with Response show ?thesis by (simp add: fetch_ghsl_absent[OF assms] print_def)
  next
    case (Some members)
    let ?w2 = "(print ''Downloading GHSL built-up dataset...'' w)\<lparr>requests := requests w @ [ghsl_url]\<rparr>"
    obtain r w3 where ex: "extractall e data_dir members ?w2 = (r, w3)"
      by (cases "extractall e data_dir members ?w2")
    have "requests w3 = requests ?w2"
      using extractall_requests[of e data_dir members ?w2] ex by simp
    then have rq: "requests w3 = requests w @ [ghsl_url]" by simp
    show ?thesis
      using Response Some ex rq by (cases r) (simp_all add: fetch_ghsl_absent[OF assms])
  qed
qed

text \<open>
  C1. When the destination exists, \<open>download_file\<close> returns at once and the world is the
  one it started from: no request is recorded, no file changes, nothing is printed. The
  same holds for the GHSL fetch when the extracted raster exists. Conversely, a run of
  either that changes the world started without its destination.
\<close>

theorem fetch_existing_noop:
  "(exists_path w dest \<longrightarrow> download_file e u dest w = (Inr (), w)) \<and>
   (exists_path w ghsl_tif \<longrightarrow> fetch_ghsl e w = (Inr (), w)) \<and>
   (snd (download_file e u dest w) \<noteq> w \<longrightarrow> \<not> exists_path w dest) \<and>
   (snd (fetch_ghsl e w) \<noteq> w \<longrightarrow> \<not> exists_path w ghsl_tif)"
  by (simp add: download_file_def fetch_ghsl_def)

theorem fetch_existing_noop_witness:
  "exists_path world_cached mangrove_tif \<and>
   download_file env_404 figshare_url mangrove_tif world_cached = (Inr (), world_cached) \<and>
   exists_path world_cached ghsl_tif \<and>
   fetch_ghsl env_404 world_cached = (Inr (), world_cached) \<and>
   snd (download_file env_404 figshare_url mangrove_tif world_empty) \<noteq> world_empty \<and>
   \<not> exists_path world_empty mangrove_tif \<and>
   snd (fetch_ghsl env_404 world_empty) \<noteq> world_empty \<and>
   \<not> exists_path world_empty ghsl_tif"
proof -
  have a: "exists_path world_cached mangrove_tif"
    by (simp add: exists_path_def world_cached_def)
  have b: "exists_path world_cached ghsl_tif"
    by (simp add: exists_path_def world_cached_def)
  have c: "snd (download_file env_404 figshare_url mangrove_tif world_empty) \<noteq> world_empty"
    by (simp add: download_file_def exists_path_def world_empty_def env_404_def print_def
        requests_get_def write_file_def mangrove_tif_def path_join_def data_dir_def)
  have d: "snd (fetch_ghsl env_404 world_empty) \<noteq> world_empty"
    by (simp add: fetch_ghsl_def exists_path_def world_empty_def env_404_def print_def
        requests_get_def)
  note T1 = fetch_existing_noop[of world_cached mangrove_tif env_404 figshare_url]
  note T2 = fetch_existing_noop[of world_empty mangrove_tif env_404 figshare_url]
  from a T1
  have a': "download_file env_404 figshare_url mangrove_tif world_cached = (Inr (), world_cached)"
    by blast
  from b T1 have b': "fetch_ghsl env_404 world_cached = (Inr (), world_cached)"
    by blast
  from c T2 have c': "\<not> exists_path world_empty mangrove_tif"
    by blast
  from d T2 have d': "\<not> exists_path world_empty ghsl_tif"
    by blast
  from a a' b b' c c' d d' show ?thesis by blast
qed


lemma arc_examples:
  "arcname ''a.tif'' = ''a.tif''"
  "arcname ''../sub//b.tif'' = ''sub/b.tif''"
  "arcname ''/abs/./x'' = ''abs/x''"
  "arcname ''..'' = []"
  "split_on CHR ''/'' ''a/b/'' = [''a'', ''b'', []]"
  by (simp_all add: arcname_def)

lemma extract_member_files_only:
  assumes "files w = files w'"
  shows "fst (extract_member e d m w) = fst (extract_member e d m w') \<and>
         files (snd (extract_member e d m w)) = files (snd (extract_member e d m w'))"
  using assms
  by (cases m)
     (auto simp add: extract_member_def Let_def write_file_def exists_path_def
        split: disk_fault.splits)

lemma extractall_files_only:
  assumes "files w = files w'"
  shows "fst (extractall e d ms w) = fst (extractall e d ms w') \<and>
         files (snd (extractall e d ms w)) = files (snd (extractall e d ms w'))"
  using assms
proof (induction ms arbitrary: w w')
  case Nil
  then show ?case by simp
next
  case (Cons m ms)
  obtain r w1 where a: "extract_member e d m w = (r, w1)"
    by (cases "extract_member e d m w")
  obtain r' w1' where b: "extract_member e d m w' = (r', w1')"
    by (cases "extract_member e d m w'")
  from extract_member_files_only[OF Cons.prems, of e d m] a b
  have rr: "r = r'" and ff: "files w1 = files w1'" by simp_all
  show ?case
  proof (cases r)
    case (Inl err)
    then show ?thesis using a b rr ff by simp
  next
    case (Inr u)
    then show ?thesis using a b rr Cons.IH[OF ff] by simp
  qed
qed

lemma fetch_ghsl_extract:
  assumes a: "\<not> exists_path w ghsl_tif"
    and r: "http_get e ghsl_url = Response st c" and z: "unzip e c = Some ms"
  shows "fst (fetch_ghsl e w) = fst (extractall e data_dir ms w)"
    and "files (snd (fetch_ghsl e w)) = files (snd (extractall e data_dir ms w))"
proof -
  let ?w2 = "(print ''Downloading GHSL built-up dataset...'' w)\<lparr>requests := requests w @ [ghsl_url]\<rparr>"
  obtain x w3 where ex: "extractall e data_dir ms ?w2 = (x, w3)"
    by (cases "extractall e data_dir ms ?w2")
  have f: "files ?w2 = files w" by simp
  from extractall_files_only[OF f, of e data_dir ms] ex
  have x: "fst (extractall e data_dir ms w) = x"
    and w3: "files (snd (extractall e data_dir ms w)) = files w3"
    by simp_all
  have g: "fetch_ghsl e w =
      (case x of Inl err \<Rightarrow> (Inl err, w3) | Inr u \<Rightarrow> (Inr (), print ''Unzipped GHSL data.'' w3))"
    using r z ex by (simp add: fetch_ghsl_absent[OF a] split: sum.splits)
  show "fst (fetch_ghsl e w) = fst (extractall e data_dir ms w)"
    unfolding x g by (cases x) simp_all
  show "files (snd (fetch_ghsl e w)) = files (snd (extractall e data_dir ms w))"
    unfolding w3 g by (cases x) simp_all
qed

text \<open>
  C3, as the code has it. When the destination is absent, exactly one request is made.
  If the request raises, the error leaves \<open>download_file\<close> and the files are as before.
  A response is never an error, whatever its status: on a healthy disk its body becomes
  the destination file and the call succeeds. If the disk fails, the error leaves
  \<open>download_file\<close>, and the prefix already written stays in the destination; a failing
  open leaves the files as before. The GHSL fetch makes exactly one request too; a raising
  request and a body that is no zip archive both end it with the files as before. When
  the body is an archive, the GHSL fetch ends as the extraction of its members ends, error
  for error, and leaves the files as the extraction leaves them: the extraction stops at
  the first member that fails, with the error of that member and with everything written
  until then in place; a member fails with the disk as \<open>download_file\<close> does, with
  \<open>BadZipFile\<close> and nothing written on a bad header, and with \<open>BadZipFile\<close> after its data
  are written on a failed CRC check. The first error ends the run: after a failed first
  fetch the second is not attempted, and after a first fetch that returns the run ends as
  the second fetch ends.
\<close>

theorem fetch_errors:
  "(\<not> exists_path w dest \<longrightarrow>
      requests (snd (download_file e u dest w)) = requests w @ [u] \<and>
      (http_get e u = ConnectionError \<longrightarrow>
         fst (download_file e u dest w) = Inl RequestException \<and>
         files (snd (download_file e u dest w)) = files w) \<and>
      (\<forall>st c. http_get e u = Response st c \<longrightarrow>
         (disk e dest = NoFault \<longrightarrow>
            fst (download_file e u dest w) = Inr () \<and>
            files (snd (download_file e u dest w)) = (files w)(dest \<mapsto> c)) \<and>
         (disk e dest = OpenFails \<longrightarrow>
            fst (download_file e u dest w) = Inl OSError \<and>
            files (snd (download_file e u dest w)) = files w) \<and>
         (\<forall>n. disk e dest = WriteFails n \<longrightarrow>
            fst (download_file e u dest w) = Inl OSError \<and>
            files (snd (download_file e u dest w)) = (files w)(dest \<mapsto> take n c)))) \<and>
   (\<not> exists_path w ghsl_tif \<longrightarrow>
      requests (snd (fetch_ghsl e w)) = requests w @ [ghsl_url] \<and>
      (http_get e ghsl_url = ConnectionError \<longrightarrow>
         fst (fetch_ghsl e w) = Inl RequestException \<and>
         files (snd (fetch_ghsl e w)) = files w) \<and>
      (\<forall>st c. http_get e ghsl_url = Response st c \<and> unzip e c = None \<longrightarrow>
         fst (fetch_ghsl e w) = Inl BadZipFile \<and>
         files (snd (fetch_ghsl e w)) = files w) \<and>
      (\<forall>st c ms. http_get e ghsl_url = Response st c \<and> unzip e c = Some ms \<longrightarrow>
         fst (fetch_ghsl e w) = fst (extractall e data_dir ms w) \<and>
         files (snd (fetch_ghsl e w)) = files (snd (extractall e data_dir ms w)))) \<and>
   (\<forall>err w1. extract_member e d m w = (Inl err, w1) \<longrightarrow>
      extractall e d (m # ms') w = (Inl err, w1)) \<and>
   (\<forall>w1. extract_member e d m w = (Inr (), w1) \<longrightarrow>
      extractall e d (m # ms') w = extractall e d ms' w1) \<and>
   (\<not> is_dir n \<and> arcname n \<noteq> [] \<longrightarrow>
      extract_member e d (BadHeader n) w = (Inl BadZipFile, w) \<and>
      (disk e (path_join d (arcname n)) = OpenFails \<longrightarrow>
         extract_member e d (Intact n c') w = (Inl OSError, w) \<and>
         extract_member e d (BadCRC n c') w = (Inl OSError, w)) \<and>
      (\<forall>k. disk e (path_join d (arcname n)) = WriteFails k \<longrightarrow>
         extract_member e d (Intact n c') w =
           (Inl OSError, w\<lparr>files := (files w)(path_join d (arcname n) \<mapsto> take k c')\<rparr>) \<and>
         extract_member e d (BadCRC n c') w =
           (Inl OSError, w\<lparr>files := (files w)(path_join d (arcname n) \<mapsto> take k c')\<rparr>)) \<and>
      (disk e (path_join d (arcname n)) = NoFault \<longrightarrow>
         extract_member e d (Intact n c') w =
           (Inr (), w\<lparr>files := (files w)(path_join d (arcname n) \<mapsto> c')\<rparr>) \<and>
         extract_member e d (BadCRC n c') w =
           (Inl BadZipFile, w\<lparr>files := (files w)(path_join d (arcname n) \<mapsto> c')\<rparr>))) \<and>
   (\<forall>err. fst (download_file e figshare_url mangrove_tif w) = Inl err \<longrightarrow>
      fetch_all e w = download_file e figshare_url mangrove_tif w) \<and>
   (fst (download_file e figshare_url mangrove_tif w) = Inr () \<longrightarrow>
      fetch_all e w = fetch_ghsl e (snd (download_file e figshare_url mangrove_tif w)))"
proof (intro conjI allI impI)
  assume a: "\<not> exists_path w dest"
  show "requests (snd (download_file e u dest w)) = requests w @ [u]"
    by (simp add: download_file_absent[OF a] write_file_def print_def
        split: http_result.splits disk_fault.splits)
  { assume "http_get e u = ConnectionError"
    then show "fst (download_file e u dest w) = Inl RequestException"
      and "files (snd (download_file e u dest w)) = files w"
      by (simp_all add: download_file_absent[OF a] print_def) }
  fix st c assume r: "http_get e u = Response st c"
  { assume "disk e dest = NoFault"
    with r show "fst (download_file e u dest w) = Inr ()"
      and "files (snd (download_file e u dest w)) = (files w)(dest \<mapsto> c)"
      by (simp_all add: download_file_absent[OF a] write_file_def print_def) }
  { assume "disk e dest = OpenFails"
    with r show "fst (download_file e u dest w) = Inl OSError"
      and "files (snd (download_file e u dest w)) = files w"
      by (simp_all add: download_file_absent[OF a] write_file_def print_def) }
  { fix n assume "disk e dest = WriteFails n"
    with r show "fst (download_file e u dest w) = Inl OSError"
      and "files (snd (download_file e u dest w)) = (files w)(dest \<mapsto> take n c)"
      by (simp_all add: download_file_absent[OF a] write_file_def print_def) }
next
  assume a: "\<not> exists_path w ghsl_tif"
  show "requests (snd (fetch_ghsl e w)) = requests w @ [ghsl_url]"
    by (rule fetch_ghsl_requests[OF a])
  { assume "http_get e ghsl_url = ConnectionError"
    then show "fst (fetch_ghsl e w) = Inl RequestException"
      and "files (snd (fetch_ghsl e w)) = files w"
      by (simp_all add: fetch_ghsl_absent[OF a] print_def) }
  { fix st c assume "http_get e ghsl_url = Response st c \<and> unzip e c = None"
    then show "fst (fetch_ghsl e w) = Inl BadZipFile"
      and "files (snd (fetch_ghsl e w)) = files w"
      by (simp_all add: fetch_ghsl_absent[OF a] print_def) }
  { fix st c ms assume "http_get e ghsl_url = Response st c \<and> unzip e c = Some ms"
    then have r: "http_get e ghsl_url = Response st c" and z: "unzip e c = Some ms"
      by simp_all
    show "fst (fetch_ghsl e w) = fst (extractall e data_dir ms w)"
      by (rule fetch_ghsl_extract(1)[OF a r z])
    show "files (snd (fetch_ghsl e w)) = files (snd (extractall e data_dir ms w))"
      by (rule fetch_ghsl_extract(2)[OF a r z]) }
next
  fix err w1 assume "extract_member e d m w = (Inl err, w1)"
  then show "extractall e d (m # ms') w = (Inl err, w1)" by simp
next
  fix w1 assume "extract_member e d m w = (Inr (), w1)"
  then show "extractall e d (m # ms') w = extractall e d ms' w1" by simp
next
  assume n: "\<not> is_dir n \<and> arcname n \<noteq> []"
  then show "extract_member e d (BadHeader n) w = (Inl BadZipFile, w)"
    by (simp add: extract_member_def member_name_def)
  { assume "disk e (path_join d (arcname n)) = OpenFails"
    with n show "extract_member e d (Intact n c') w = (Inl OSError, w)"
      and "extract_member e d (BadCRC n c') w = (Inl OSError, w)"
      by (simp_all add: extract_member_def member_name_def write_file_def) }
  { fix k assume "disk e (path_join d (arcname n)) = WriteFails k"
    with n show "extract_member e d (Intact n c') w =
           (Inl OSError, w\<lparr>files := (files w)(path_join d (arcname n) \<mapsto> take k c')\<rparr>)"
      and "extract_member e d (BadCRC n c') w =
           (Inl OSError, w\<lparr>files := (files w)(path_join d (arcname n) \<mapsto> take k c')\<rparr>)"
      by (simp_all add: extract_member_def member_name_def write_file_def) }
  { assume "disk e (path_join d (arcname n)) = NoFault"
    with n show "extract_member e d (Intact n c') w =
           (Inr (), w\<lparr>files := (files w)(path_join d (arcname n) \<mapsto> c')\<rparr>)"
      and "extract_member e d (BadCRC n c') w =
           (Inl BadZipFile, w\<lparr>files := (files w)(path_join d (arcname n) \<mapsto> c')\<rparr>)"
      by (simp_all add: extract_member_def member_name_def write_file_def) }
next
  fix err assume "fst (download_file e figshare_url mangrove_tif w) = Inl err"
  then show "fetch_all e w = download_file e figshare_url mangrove_tif w"
    by (cases "download_file e figshare_url mangrove_tif w") (simp add: fetch_all_def)
next
  assume "fst (download_file e figshare_url mangrove_tif w) = Inr ()"
  then show "fetch_all e w = fetch_ghsl e (snd (download_file e figshare_url mangrove_tif w))"
    by (cases "download_file e figshare_url mangrove_tif w") (simp add: fetch_all_def)
qed

theorem fetch_errors_witness:
  "\<not> exists_path world_empty ''d'' \<and> http_get env_offline ''u'' = ConnectionError \<and>
   requests (snd (download_file env_offline ''u'' ''d'' world_empty)) = [''u''] \<and>
   fst (download_file env_offline ''u'' ''d'' world_empty) = Inl RequestException \<and>
   files (snd (download_file env_offline ''u'' ''d'' world_empty)) = Map.empty \<and>
   http_get env_404 ''u'' = Response 404 ''Not Found'' \<and> disk env_404 ''d'' = NoFault \<and>
   files (snd (download_file env_404 ''u'' ''d'' world_empty)) = [''d'' \<mapsto> ''Not Found''] \<and>
   disk env_404 ''ro'' = OpenFails \<and>
   fst (download_file env_404 ''u'' ''ro'' world_empty) = Inl OSError \<and>
   disk env_404 ''full'' = WriteFails 3 \<and>
   files (snd (download_file env_404 ''u'' ''full'' world_empty)) = [''full'' \<mapsto> ''Not''] \<and>
   \<not> exists_path world_empty ghsl_tif \<and>
   fst (fetch_ghsl env_offline world_empty) = Inl RequestException \<and>
   unzip env_404 ''Not Found'' = None \<and>
   fst (fetch_ghsl env_404 world_empty) = Inl BadZipFile \<and>
   files (snd (fetch_ghsl env_404 world_empty)) = Map.empty \<and>
   fst (download_file env_offline figshare_url mangrove_tif world_empty) = Inl RequestException \<and>
   fetch_all env_offline world_empty =
     download_file env_offline figshare_url mangrove_tif world_empty \<and>
   http_get env_zip_full ghsl_url = Response 200 ''PK'' \<and>
   unzip env_zip_full ''PK'' =
     Some [Intact ''a.tif'' ''AAAA'', Intact ''b.tif'' ''BBBB'', Intact ''c.tif'' ''CCCC''] \<and>
   fst (fetch_ghsl env_zip_full world_empty) = Inl OSError \<and>
   files (snd (fetch_ghsl env_zip_full world_empty)) =
     [''data/a.tif'' \<mapsto> ''AAAA'', ''data/b.tif'' \<mapsto> ''BB''] \<and>
   unzip env_zip_crc ''PK'' =
     Some [Intact ''a.tif'' ''AAAA'', BadCRC ''../sub//b.tif'' ''BB'', Intact ''c.tif'' ''CCCC''] \<and>
   fst (fetch_ghsl env_zip_crc world_empty) = Inl BadZipFile \<and>
   files (snd (fetch_ghsl env_zip_crc world_empty)) =
     [''data/a.tif'' \<mapsto> ''AAAA'', ''data/sub/b.tif'' \<mapsto> ''BB''] \<and>
   \<not> is_dir ''c.tif'' \<and> arcname ''c.tif'' = ''c.tif'' \<and>
   disk env_zip_crc ''data/c.tif'' = OpenFails \<and>
   extract_member env_zip_crc data_dir (Intact ''c.tif'' ''CCCC'') world_empty =
     (Inl OSError, world_empty) \<and>
   extract_member env_zip_crc data_dir (BadHeader ''c.tif'') world_empty =
     (Inl BadZipFile, world_empty) \<and>
   extractall env_zip_crc data_dir [BadHeader ''c.tif'', Intact ''a.tif'' ''AAAA''] world_empty =
     (Inl BadZipFile, world_empty) \<and>
   disk env_zip_full ''data/b.tif'' = WriteFails 2 \<and>
   fst (extract_member env_zip_full data_dir (Intact ''b.tif'' ''BBBB'') world_empty) = Inl OSError \<and>
   files (snd (extract_member env_zip_full data_dir (Intact ''b.tif'' ''BBBB'') world_empty)) =
     [''data/b.tif'' \<mapsto> ''BB''] \<and>
   disk env_zip_full ''data/a.tif'' = NoFault \<and>
   extract_member env_zip_full data_dir (Intact ''a.tif'' ''AAAA'') world_empty =
     (Inr (), world_empty\<lparr>files := [''data/a.tif'' \<mapsto> ''AAAA'']\<rparr>) \<and>
   extractall env_zip_full data_dir [Intact ''a.tif'' ''AAAA'', Intact ''b.tif'' ''BBBB''] world_empty =
     extractall env_zip_full data_dir [Intact ''b.tif'' ''BBBB'']
       (world_empty\<lparr>files := [''data/a.tif'' \<mapsto> ''AAAA'']\<rparr>) \<and>
   fst (download_file env_404 figshare_url mangrove_tif world_empty) = Inr () \<and>
   fetch_all env_404 world_empty =
     fetch_ghsl env_404 (snd (download_file env_404 figshare_url mangrove_tif world_empty))"
proof -
  have ne: "\<not> exists_path world_empty p" for p
    by (simp add: exists_path_def world_empty_def)
  have h1: "http_get env_offline u = ConnectionError" for u
    by (simp add: env_offline_def)
  have h2: "http_get env_404 u = Response 404 ''Not Found''" for u
    by (simp add: env_404_def)
  have d1: "disk env_404 ''d'' = NoFault" and d2: "disk env_404 ''ro'' = OpenFails"
    and d3: "disk env_404 ''full'' = WriteFails 3"
    by (simp_all add: env_404_def)
  have z: "unzip env_404 ''Not Found'' = None"
    by (simp add: env_404_def)
  have w0: "requests world_empty = []" "files world_empty = Map.empty"
    by (simp_all add: world_empty_def)
  note A = fetch_errors[where w = world_empty and dest = "''d''" and e = env_offline and u = "''u''"]
  note B = fetch_errors[where w = world_empty and dest = "''d''" and e = env_404 and u = "''u''"]
  note C = fetch_errors[where w = world_empty and dest = "''ro''" and e = env_404 and u = "''u''"]
  note D = fetch_errors[where w = world_empty and dest = "''full''" and e = env_404 and u = "''u''"]
  have a1: "requests (snd (download_file env_offline ''u'' ''d'' world_empty)) = [''u'']"
    using A ne w0 by simp
  have a2: "fst (download_file env_offline ''u'' ''d'' world_empty) = Inl RequestException"
    "files (snd (download_file env_offline ''u'' ''d'' world_empty)) = Map.empty"
    using A ne h1 w0 by simp_all
  have b1: "files (snd (download_file env_404 ''u'' ''d'' world_empty)) = [''d'' \<mapsto> ''Not Found'']"
    using B ne h2 d1 w0 by simp
  have c1: "fst (download_file env_404 ''u'' ''ro'' world_empty) = Inl OSError"
    using C ne h2 d2 by simp
  have d4: "files (snd (download_file env_404 ''u'' ''full'' world_empty)) = [''full'' \<mapsto> ''Not'']"
    using D ne h2 d3 w0 by simp
  have g1: "fst (fetch_ghsl env_offline world_empty) = Inl RequestException"
    using A ne h1 by simp
  have g2: "fst (fetch_ghsl env_404 world_empty) = Inl BadZipFile"
    "files (snd (fetch_ghsl env_404 world_empty)) = Map.empty"
    using B ne h2 z w0 by simp_all
  have e1: "fst (download_file env_offline figshare_url mangrove_tif world_empty) = Inl RequestException"
    using fetch_errors[where w = world_empty and dest = mangrove_tif and e = env_offline and u = figshare_url] ne h1 by simp
  have e2: "fetch_all env_offline world_empty =
      download_file env_offline figshare_url mangrove_tif world_empty"
    using A e1 by blast
  let ?full = "[Intact ''a.tif'' ''AAAA'', Intact ''b.tif'' ''BBBB'', Intact ''c.tif'' ''CCCC'']"
  let ?crc = "[Intact ''a.tif'' ''AAAA'', BadCRC ''../sub//b.tif'' ''BB'', Intact ''c.tif'' ''CCCC'']"
  have r1: "http_get env_zip_full ghsl_url = Response 200 ''PK''"
    and z1: "unzip env_zip_full ''PK'' = Some ?full"
    by (simp_all add: env_zip_full_def)
  have r2: "http_get env_zip_crc ghsl_url = Response 200 ''PK''"
    and z2: "unzip env_zip_crc ''PK'' = Some ?crc"
    by (simp_all add: env_zip_crc_def)
  have x1: "extractall env_zip_full data_dir ?full world_empty =
      (Inl OSError,
       world_empty\<lparr>files := [''data/a.tif'' \<mapsto> ''AAAA'', ''data/b.tif'' \<mapsto> ''BB'']\<rparr>)"
    by (simp add: extract_member_def member_name_def arcname_def is_dir_def Let_def
        write_file_def env_zip_full_def data_dir_def path_join_def world_empty_def)
  have x2: "extractall env_zip_crc data_dir ?crc world_empty =
      (Inl BadZipFile,
       world_empty\<lparr>files := [''data/a.tif'' \<mapsto> ''AAAA'', ''data/sub/b.tif'' \<mapsto> ''BB'']\<rparr>)"
    by (simp add: extract_member_def member_name_def arcname_def is_dir_def Let_def
        write_file_def env_zip_crc_def data_dir_def path_join_def world_empty_def)
  note F = fetch_errors[where w = world_empty and e = env_zip_full and d = data_dir
      and n = "''b.tif''" and c' = "''BBBB''" and m = "Intact ''a.tif'' ''AAAA''"
      and ms' = "[Intact ''b.tif'' ''BBBB'']"]
  note F' = fetch_errors[where w = world_empty and e = env_zip_full and d = data_dir
      and n = "''a.tif''" and c' = "''AAAA''"]
  note K = fetch_errors[where w = world_empty and e = env_zip_crc and d = data_dir
      and n = "''c.tif''" and c' = "''CCCC''" and m = "BadHeader ''c.tif''"
      and ms' = "[Intact ''a.tif'' ''AAAA'']"]
  have f1: "fst (fetch_ghsl env_zip_full world_empty) = Inl OSError"
    "files (snd (fetch_ghsl env_zip_full world_empty)) =
       [''data/a.tif'' \<mapsto> ''AAAA'', ''data/b.tif'' \<mapsto> ''BB'']"
    using F ne r1 z1 x1 by simp_all
  have k1: "fst (fetch_ghsl env_zip_crc world_empty) = Inl BadZipFile"
    "files (snd (fetch_ghsl env_zip_crc world_empty)) =
       [''data/a.tif'' \<mapsto> ''AAAA'', ''data/sub/b.tif'' \<mapsto> ''BB'']"
    using K ne r2 z2 x2 by simp_all
  have n1: "\<not> is_dir ''c.tif''" "arcname ''c.tif'' = ''c.tif''"
    "\<not> is_dir ''b.tif''" "arcname ''b.tif'' = ''b.tif''"
    "\<not> is_dir ''a.tif''" "arcname ''a.tif'' = ''a.tif''"
    by (simp_all add: is_dir_def arcname_def)
  have p1: "path_join data_dir ''c.tif'' = ''data/c.tif''"
    "path_join data_dir ''b.tif'' = ''data/b.tif''"
    "path_join data_dir ''a.tif'' = ''data/a.tif''"
    by (simp_all add: path_join_def data_dir_def)
  have q1: "disk env_zip_crc ''data/c.tif'' = OpenFails"
    by (simp add: env_zip_crc_def)
  have q2: "disk env_zip_full ''data/b.tif'' = WriteFails 2"
    and q3: "disk env_zip_full ''data/a.tif'' = NoFault"
    by (simp_all add: env_zip_full_def)
  have k2: "extract_member env_zip_crc data_dir (Intact ''c.tif'' ''CCCC'') world_empty =
      (Inl OSError, world_empty)"
    using K n1 p1 q1 by simp
  have k3: "extract_member env_zip_crc data_dir (BadHeader ''c.tif'') world_empty =
      (Inl BadZipFile, world_empty)"
    using K n1 by simp
  have k4: "extractall env_zip_crc data_dir [BadHeader ''c.tif'', Intact ''a.tif'' ''AAAA'']
      world_empty = (Inl BadZipFile, world_empty)"
    using K k3 by blast
  have f2: "extract_member env_zip_full data_dir (Intact ''b.tif'' ''BBBB'') world_empty =
      (Inl OSError, world_empty\<lparr>files := (files world_empty)(''data/b.tif'' \<mapsto> ''BB'')\<rparr>)"
    using F n1 p1 q2 by simp
  have f3: "extract_member env_zip_full data_dir (Intact ''a.tif'' ''AAAA'') world_empty =
      (Inr (), world_empty\<lparr>files := (files world_empty)(''data/a.tif'' \<mapsto> ''AAAA'')\<rparr>)"
    using F' n1 p1 q3 by simp
  have f4: "extractall env_zip_full data_dir [Intact ''a.tif'' ''AAAA'', Intact ''b.tif'' ''BBBB'']
      world_empty =
     extractall env_zip_full data_dir [Intact ''b.tif'' ''BBBB'']
       (world_empty\<lparr>files := (files world_empty)(''data/a.tif'' \<mapsto> ''AAAA'')\<rparr>)"
    using F f3 by blast
  have dm: "disk env_404 mangrove_tif = NoFault"
    by (simp add: env_404_def mangrove_tif_def path_join_def data_dir_def)
  note M = fetch_errors[where w = world_empty and dest = mangrove_tif and e = env_404
      and u = figshare_url]
  have m1: "fst (download_file env_404 figshare_url mangrove_tif world_empty) = Inr ()"
    using M ne h2 dm by simp
  have m2: "fetch_all env_404 world_empty =
      fetch_ghsl env_404 (snd (download_file env_404 figshare_url mangrove_tif world_empty))"
    using M m1 by blast
  show ?thesis
    using ne h1 h2 d1 d2 d3 z a1 a2 b1 c1 d4 g1 g2 e1 e2
      r1 z1 f1 z2 k1 n1 q1 k2 k3 k4 q2 f2 q3 f3 f4 w0 m1 m2
    by simp
qed

text \<open>
  C3 as stated fails twice. A response with status 404 is a failed HTTP response, yet
  \<open>download_file\<close> returns normally and the error page is now the destination file. And
  on a disk that fills up after three bytes the error does propagate, but the destination
  is left behind holding those three bytes.
\<close>

theorem failed_response_saved:
  "http_get env_404 ''u'' = Response 404 ''Not Found'' \<and>
   \<not> exists_path world_empty ''d'' \<and>
   fst (download_file env_404 ''u'' ''d'' world_empty) = Inr () \<and>
   files (snd (download_file env_404 ''u'' ''d'' world_empty)) ''d'' = Some ''Not Found'' \<and>
   disk env_404 ''full'' = WriteFails 3 \<and>
   fst (download_file env_404 ''u'' ''full'' world_empty) = Inl OSError \<and>
   files (snd (download_file env_404 ''u'' ''full'' world_empty)) ''full'' = Some ''Not''"
  by (simp add: download_file_def exists_path_def world_empty_def env_404_def print_def
        requests_get_def write_file_def)

subsection \<open>Vectorisation\<close>

lemma shapes_loop_map_filter:
  "shapes_loop sh xs geoms =
     geoms @ List.map_filter (\<lambda>(s, v). if v = 1 then sh s else None) xs"
proof (induction xs arbitrary: geoms)
  case Nil
  show ?case by simp
next
  case (Cons x xs)
  obtain s v where x: "x = (s, v)" by (cases x)
  show ?case
    by (simp add: x Cons.IH split: option.splits)
qed

lemma map_filter_append:
  "List.map_filter f (xs @ ys) = List.map_filter f xs @ List.map_filter f ys"
  by (simp add: List.map_filter_def)

text \<open>
  C5. The rows of the layer are, in the order of the sequence, the polygons of exactly
  those pairs whose value equals 1 and for which \<open>shape\<close> returns. A pair whose value is
  not 1, or whose \<open>shape\<close> raises, can be taken out of the sequence without changing the
  layer; a pair that is kept contributes its polygon between the rows of the pairs before
  it and the rows of the pairs after it.
\<close>

theorem shapes_to_gdf_keeps:
  "geometry (shapes_to_gdf lib shapes_gen c) =
     List.map_filter (\<lambda>(s, v). if v = 1 then geom_shape lib s else None) shapes_gen \<and>
   (geom_shape lib s = None \<or> v \<noteq> 1 \<longrightarrow>
      shapes_to_gdf lib (pre @ (s, v) # post) c = shapes_to_gdf lib (pre @ post) c) \<and>
   (\<forall>g. v = 1 \<and> geom_shape lib s = Some g \<longrightarrow>
      geometry (shapes_to_gdf lib (pre @ (s, v) # post) c) =
        geometry (shapes_to_gdf lib pre c) @ g # geometry (shapes_to_gdf lib post c))"
  by (auto simp add: shapes_to_gdf_def shapes_loop_map_filter map_filter_append)

theorem shapes_to_gdf_keeps_witness:
  "geom_shape box_lib (2, 2, 2, 3) = None \<and>
   shapes_to_gdf box_lib ([((0, 0, 1, 1), 1)] @ ((2, 2, 2, 3), 1) # [((4, 4, 5, 5), 1)]) None =
   shapes_to_gdf box_lib ([((0, 0, 1, 1), 1)] @ [((4, 4, 5, 5), 1)]) None \<and>
   geom_shape box_lib (4, 4, 5, 5) = Some (Box 4 4 5 5) \<and>
   geometry (shapes_to_gdf box_lib ([((0, 0, 1, 1), 1)] @ ((4, 4, 5, 5), 1) # []) None) =
     geometry (shapes_to_gdf box_lib [((0, 0, 1, 1), 1)] None) @
     Box 4 4 5 5 # geometry (shapes_to_gdf box_lib [] None) \<and>
   geometry (shapes_to_gdf box_lib
       [((0, 0, 1, 1), 1), ((2, 2, 2, 3), 1), ((0, 0, 9, 9), 0), ((4, 4, 5, 5), 1)] None) =
     [Box 0 0 1 1, Box 4 4 5 5]"
proof -
  have a: "geom_shape box_lib (2, 2, 2, 3) = None"
    by (simp add: box_lib_def box_shape_def)
  have b: "geom_shape box_lib (4, 4, 5, 5) = Some (Box 4 4 5 5)"
    by (simp add: box_lib_def box_shape_def)
  from a shapes_to_gdf_keeps[where lib = box_lib and s = "(2, 2, 2, 3)" and v = 1
      and pre = "[((0, 0, 1, 1), 1)]" and post = "[((4, 4, 5, 5), 1)]" and c = None]
  have c: "shapes_to_gdf box_lib
       ([((0, 0, 1, 1), 1)] @ ((2, 2, 2, 3), 1) # [((4, 4, 5, 5), 1)]) None =
     shapes_to_gdf box_lib ([((0, 0, 1, 1), 1)] @ [((4, 4, 5, 5), 1)]) None"
    by blast
  from b shapes_to_gdf_keeps[where lib = box_lib and s = "(4, 4, 5, 5)" and v = 1
      and pre = "[((0, 0, 1, 1), 1)]" and post = "[]" and c = None]
  have d: "geometry (shapes_to_gdf box_lib ([((0, 0, 1, 1), 1)] @ ((4, 4, 5, 5), 1) # []) None) =
     geometry (shapes_to_gdf box_lib [((0, 0, 1, 1), 1)] None) @
     Box 4 4 5 5 # geometry (shapes_to_gdf box_lib [] None)"
    by blast
  have e: "geometry (shapes_to_gdf box_lib
       [((0, 0, 1, 1), 1), ((2, 2, 2, 3), 1), ((0, 0, 9, 9), 0), ((4, 4, 5, 5), 1)] None) =
     [Box 0 0 1 1, Box 4 4 5 5]"
    using shapes_to_gdf_keeps[where lib = box_lib and c = None and shapes_gen =
       "[((0, 0, 1, 1), 1), ((2, 2, 2, 3), 1), ((0, 0, 9, 9), 0), ((4, 4, 5, 5), 1)]"]
    by (simp add: box_lib_def box_shape_def)
  from a b c d e show ?thesis by blast
qed

subsection \<open>The copy before the buffer\<close>

lemma setitem_through_alias:
  assumes "vars h x = Some r" and "vars h y = Some r" and "objs h r = Some df"
  shows "\<exists>h'. df_setitem_geometry r gs h = Some h' \<and>
              deref h' x = Some (set_geometry gs df) \<and>
              deref h' y = Some (set_geometry gs df)"
  using assms by (simp add: df_setitem_geometry_def deref_def)

text \<open>
  C10. Let \<open>gdf_mangrove\<close> refer to an allocated object. Lines 80 and 81 then run to
  the end, \<open>gdf_mangrove\<close> still refers to the same object, and that object has the rows
  and the CRS it had before; the buffered rows are in the new object that
  \<open>mangrove_buffer\<close> refers to.
\<close>

theorem buffer_step_frame:
  assumes "vars h ''gdf_mangrove'' = Some r" and "objs h r = Some df" and "r < next_ref h"
  shows "\<exists>h'. buffer_step lib h = Some h' \<and>
              vars h' ''gdf_mangrove'' = Some r \<and>
              objs h' r = Some df \<and>
              deref h' ''gdf_mangrove'' = deref h ''gdf_mangrove'' \<and>
              vars h' ''mangrove_buffer'' = Some (next_ref h) \<and>
              deref h' ''mangrove_buffer'' =
                Some (set_geometry (buffer lib buffer_distance df) df)"
  using assms
  by (simp add: buffer_step_def df_copy_def assign_def df_setitem_geometry_def deref_def)

theorem buffer_step_frame_witness:
  "vars heap_demo ''gdf_mangrove'' = Some 0 \<and>
   objs heap_demo 0 = Some \<lparr>geometry = [Box 0 0 1 1], crs = Some (EPSG 4326)\<rparr> \<and>
   0 < next_ref heap_demo \<and>
   (\<exists>h'. buffer_step box_lib heap_demo = Some h' \<and>
         deref h' ''gdf_mangrove'' =
           Some \<lparr>geometry = [Box 0 0 1 1], crs = Some (EPSG 4326)\<rparr> \<and>
         deref h' ''mangrove_buffer'' =
           Some \<lparr>geometry = [Box (- (5 / 100)) (- (5 / 100)) (105 / 100) (105 / 100)],
                 crs = Some (EPSG 4326)\<rparr>)"
proof -
  let ?df = "\<lparr>geometry = [Box 0 0 1 1], crs = Some (EPSG 4326)\<rparr>"
  have a: "vars heap_demo ''gdf_mangrove'' = Some 0"
    and b: "objs heap_demo 0 = Some ?df"
    and c: "0 < next_ref heap_demo"
    by (simp_all add: heap_demo_def)
  have d: "deref heap_demo ''gdf_mangrove'' = Some ?df"
    by (simp add: deref_def heap_demo_def)
  have e: "set_geometry (buffer box_lib buffer_distance ?df) ?df =
      \<lparr>geometry = [Box (- (5 / 100)) (- (5 / 100)) (105 / 100) (105 / 100)],
       crs = Some (EPSG 4326)\<rparr>"
    by (simp add: set_geometry_def buffer_def box_lib_def buffer_distance_def)
  from buffer_step_frame[OF a b c, of box_lib] obtain h' where
    h: "buffer_step box_lib heap_demo = Some h'"
      "deref h' ''gdf_mangrove'' = deref heap_demo ''gdf_mangrove''"
      "deref h' ''mangrove_buffer'' = Some (set_geometry (buffer box_lib buffer_distance ?df) ?df)"
    by blast
  from h d e have "buffer_step box_lib heap_demo = Some h' \<and>
         deref h' ''gdf_mangrove'' = Some ?df \<and>
         deref h' ''mangrove_buffer'' =
           Some \<lparr>geometry = [Box (- (5 / 100)) (- (5 / 100)) (105 / 100) (105 / 100)],
                 crs = Some (EPSG 4326)\<rparr>"
    by simp
  then show ?thesis using a b c by blast
qed

subsection \<open>The geometry steps\<close>

lemma to_crs_Inr:
  assumes "to_crs lib t df = Inr df'"
  shows "crs df' = Some t" and "crs df \<noteq> None"
  using assms by (auto simp add: to_crs_def split: option.splits if_splits)

lemma to_crs_total: "crs df = Some c \<Longrightarrow> \<exists>df'. to_crs lib t df = Inr df'"
  by (simp add: to_crs_def)

lemma geometry_steps_unfold:
  assumes "geometry_steps lib ms mc bs bc = Inr p"
  shows "gdf_mangrove_src p = shapes_to_gdf lib ms mc"
    and "gdf_builtup_src p = shapes_to_gdf lib bs bc"
    and "to_crs lib (EPSG 4326) (gdf_mangrove_src p) = Inr (gdf_mangrove p)"
    and "to_crs lib (EPSG 4326) (gdf_builtup_src p) = Inr (gdf_builtup p)"
    and "mangrove_buffer p =
           set_geometry (buffer lib buffer_distance (gdf_mangrove p)) (gdf_mangrove p)"
    and "overlap p = overlay lib (gdf_builtup p) (mangrove_buffer p)"
    and "to_crs lib equal_area_crs (gdf_mangrove p) = Inr (gdf_mangrove_eq p)"
    and "to_crs lib equal_area_crs (gdf_builtup p) = Inr (gdf_builtup_eq p)"
    and "to_crs lib equal_area_crs (overlap p) = Inr (overlap_eq p)"
    and "stats p =
           [(''Mangrove area (km'' @ sup2 @ '')'',
             fl_div lib (area_sum lib (gdf_mangrove_eq p)) 1000000),
            (''Built-up area (km'' @ sup2 @ '')'',
             fl_div lib (area_sum lib (gdf_builtup_eq p)) 1000000),
            (''Built-up within 5 km (km'' @ sup2 @ '')'',
             fl_div lib (area_sum lib (overlap_eq p)) 1000000)]"
  using assms
  by (auto simp add: geometry_steps_def Let_def split: sum.splits)

lemma geometry_steps_total:
  assumes "mc = Some c1" and "bc = Some c2"
  shows "\<exists>p. geometry_steps lib ms mc bs bc = Inr p"
proof -
  let ?m0 = "shapes_to_gdf lib ms mc" and ?b0 = "shapes_to_gdf lib bs bc"
  have "crs ?m0 = Some c1" "crs ?b0 = Some c2"
    using assms by (simp_all add: shapes_to_gdf_def)
  then obtain m b where m: "to_crs lib (EPSG 4326) ?m0 = Inr m"
    and b: "to_crs lib (EPSG 4326) ?b0 = Inr b"
    using to_crs_total by blast
  have cm: "crs m = Some (EPSG 4326)" and cb: "crs b = Some (EPSG 4326)"
    using to_crs_Inr(1)[OF m] to_crs_Inr(1)[OF b] by simp_all
  let ?ov = "overlay lib b (set_geometry (buffer lib buffer_distance m) m)"
  have co: "crs ?ov = Some (EPSG 4326)"
    using cb by (simp add: overlay_def)
  obtain m_eq b_eq ov_eq where e: "to_crs lib equal_area_crs m = Inr m_eq"
    "to_crs lib equal_area_crs b = Inr b_eq" "to_crs lib equal_area_crs ?ov = Inr ov_eq"
    using to_crs_total[OF cm] to_crs_total[OF cb] to_crs_total[OF co] by blast
  show ?thesis
    using m b e by (simp add: geometry_steps_def Let_def)
qed

lemma demo_run:
  "geometry_steps box_lib mangrove_shapes_demo (Some (EPSG 4326))
      builtup_shapes_demo (Some (EPSG 3857)) =
   Inr \<lparr>gdf_mangrove_src =
          \<lparr>geometry = [Box 0 0 (1 / 100) (1 / 100), Box (2 / 100) 0 (3 / 100) (1 / 100)],
           crs = Some (EPSG 4326)\<rparr>,
        gdf_builtup_src =
          \<lparr>geometry = [Box (1 / 100) 0 (2 / 100) (1 / 100)], crs = Some (EPSG 3857)\<rparr>,
        gdf_mangrove =
          \<lparr>geometry = [Box 0 0 (1 / 100) (1 / 100), Box (2 / 100) 0 (3 / 100) (1 / 100)],
           crs = Some (EPSG 4326)\<rparr>,
        gdf_builtup =
          \<lparr>geometry = [Box (1 / 100) 0 (2 / 100) (1 / 100)], crs = Some (EPSG 4326)\<rparr>,
        mangrove_buffer =
          \<lparr>geometry = [Box (- (5 / 100)) (- (5 / 100)) (6 / 100) (6 / 100),
                       Box (- (3 / 100)) (- (5 / 100)) (8 / 100) (6 / 100)],
           crs = Some (EPSG 4326)\<rparr>,
        overlap =
          \<lparr>geometry = [Box (1 / 100) 0 (2 / 100) (1 / 100), Box (1 / 100) 0 (2 / 100) (1 / 100)],
           crs = Some (EPSG 4326)\<rparr>,
        gdf_mangrove_eq =
          \<lparr>geometry = [Box 0 0 (1 / 100) (1 / 100), Box (2 / 100) 0 (3 / 100) (1 / 100)],
           crs = Some (EPSG 6933)\<rparr>,
        gdf_builtup_eq =
          \<lparr>geometry = [Box (1 / 100) 0 (2 / 100) (1 / 100)], crs = Some (EPSG 6933)\<rparr>,
        overlap_eq =
          \<lparr>geometry = [Box (1 / 100) 0 (2 / 100) (1 / 100), Box (1 / 100) 0 (2 / 100) (1 / 100)],
           crs = Some (EPSG 6933)\<rparr>,
        stats =
          [(''Mangrove area (km'' @ sup2 @ '')'', 2 / 10000 / 1000000),
           (''Built-up area (km'' @ sup2 @ '')'', 1 / 10000 / 1000000),
           (''Built-up within 5 km (km'' @ sup2 @ '')'', 2 / 10000 / 1000000)]\<rparr>"
  by (simp add: geometry_steps_def shapes_to_gdf_def mangrove_shapes_demo_def
      builtup_shapes_demo_def box_lib_def box_shape_def to_crs_def set_geometry_def
      buffer_def buffer_distance_def overlay_def equal_area_crs_def area_sum_def Let_def)

lemma fmt_2f_examples:
  "fmt_2f (1234567 / 1000) = ''1234.57''"
  "fmt_2f (1 / 8) = ''0.12''"
  "fmt_2f (3 / 8) = ''0.38''"
  "fmt_2f (- (1 / 1000)) = ''-0.00''"
  "fmt_2f 0 = ''0.00''"
  "fmt_2f (2 / 10000 / 1000000) = ''0.00''"
  by (simp_all add: fmt_2f_def round_half_even_def Let_def show_nat.simps digit_char_def)

text \<open>
  C7. \<open>shapes_to_gdf\<close> gives its layer the CRS it is handed, which the script reads off
  the source raster. Replacing the geometry column keeps the CRS, the overlay takes the
  CRS of its first argument, and a successful \<open>to_crs\<close> is the only step after which a
  layer carries another CRS, namely the requested one. In a run of the script, the two
  vectorised layers carry the CRS of their rasters, their reprojections carry EPSG:4326,
  the buffer and the overlap carry the CRS of the layers they are made from, and the three
  layers of the statistics carry EPSG:6933.
\<close>

theorem crs_invariant:
  "crs (shapes_to_gdf lib shapes_gen c) = c \<and>
   crs (set_geometry gs df) = crs df \<and>
   crs (overlay lib df1 df2) = crs df1 \<and>
   (\<forall>df'. to_crs lib t df = Inr df' \<longrightarrow> crs df' = Some t) \<and>
   (\<forall>p. geometry_steps lib ms mc bs bc = Inr p \<longrightarrow>
      crs (gdf_mangrove_src p) = mc \<and> crs (gdf_builtup_src p) = bc \<and>
      crs (gdf_mangrove p) = Some (EPSG 4326) \<and> crs (gdf_builtup p) = Some (EPSG 4326) \<and>
      crs (mangrove_buffer p) = crs (gdf_mangrove p) \<and>
      crs (overlap p) = crs (gdf_builtup p) \<and>
      crs (gdf_mangrove_eq p) = Some (EPSG 6933) \<and>
      crs (gdf_builtup_eq p) = Some (EPSG 6933) \<and>
      crs (overlap_eq p) = Some (EPSG 6933))"
proof (intro conjI allI impI)
  show "crs (shapes_to_gdf lib shapes_gen c) = c"
    by (simp add: shapes_to_gdf_def)
  show "crs (set_geometry gs df) = crs df"
    by (simp add: set_geometry_def)
  show "crs (overlay lib df1 df2) = crs df1"
    by (simp add: overlay_def)
next
  fix df' assume "to_crs lib t df = Inr df'"
  then show "crs df' = Some t" by (rule to_crs_Inr(1))
next
  fix p assume run: "geometry_steps lib ms mc bs bc = Inr p"
  note u = geometry_steps_unfold[OF run]
  show "crs (gdf_mangrove_src p) = mc" "crs (gdf_builtup_src p) = bc"
    by (simp_all add: u(1,2) shapes_to_gdf_def)
  show "crs (gdf_mangrove p) = Some (EPSG 4326)" "crs (gdf_builtup p) = Some (EPSG 4326)"
    using to_crs_Inr(1)[OF u(3)] to_crs_Inr(1)[OF u(4)] by simp_all
  show "crs (mangrove_buffer p) = crs (gdf_mangrove p)"
    by (simp add: u(5) set_geometry_def)
  show "crs (overlap p) = crs (gdf_builtup p)"
    by (simp add: u(6) overlay_def)
  show "crs (gdf_mangrove_eq p) = Some (EPSG 6933)" "crs (gdf_builtup_eq p) = Some (EPSG 6933)"
    "crs (overlap_eq p) = Some (EPSG 6933)"
    using to_crs_Inr(1)[OF u(7)] to_crs_Inr(1)[OF u(8)] to_crs_Inr(1)[OF u(9)]
    by (simp_all add: equal_area_crs_def)
qed

theorem crs_invariant_witness:
  "\<exists>p. geometry_steps box_lib mangrove_shapes_demo (Some (EPSG 4326))
          builtup_shapes_demo (Some (EPSG 3857)) = Inr p \<and>
       crs (gdf_mangrove_src p) = Some (EPSG 4326) \<and>
       crs (gdf_builtup_src p) = Some (EPSG 3857) \<and>
       crs (gdf_builtup p) = Some (EPSG 4326) \<and>
       crs (mangrove_buffer p) = Some (EPSG 4326) \<and>
       crs (overlap p) = Some (EPSG 4326) \<and>
       crs (overlap_eq p) = Some (EPSG 6933) \<and>
       to_crs box_lib (EPSG 4326) (gdf_builtup_src p) = Inr (gdf_builtup p)"
proof -
  obtain p where run: "geometry_steps box_lib mangrove_shapes_demo (Some (EPSG 4326))
          builtup_shapes_demo (Some (EPSG 3857)) = Inr p"
    using demo_run by blast
  have r: "to_crs box_lib (EPSG 4326) (gdf_builtup_src p) = Inr (gdf_builtup p)"
    by (rule geometry_steps_unfold(4)[OF run])
  note T = crs_invariant[where lib = box_lib and ms = mangrove_shapes_demo
      and mc = "Some (EPSG 4326)" and bs = builtup_shapes_demo and bc = "Some (EPSG 3857)"
      and t = "EPSG 4326" and df = "gdf_builtup_src p"]
  from T run have
    "crs (gdf_mangrove_src p) = Some (EPSG 4326) \<and>
     crs (gdf_builtup_src p) = Some (EPSG 3857) \<and>
     crs (gdf_builtup p) = Some (EPSG 4326) \<and>
     crs (mangrove_buffer p) = crs (gdf_mangrove p) \<and>
     crs (gdf_mangrove p) = Some (EPSG 4326) \<and>
     crs (overlap p) = crs (gdf_builtup p) \<and>
     crs (overlap_eq p) = Some (EPSG 6933)"
    by blast
  with run r show ?thesis by auto
qed

text \<open>
  C8. In a run of the script the mangrove layer that is buffered is the reprojection of
  the vectorised layer to EPSG:4326, and the buffer layer has, row for row, the buffer of
  each of its polygons at the distance 0.05, under the same CRS, so that the distance is
  in degrees.
\<close>

theorem buffer_layer_built:
  assumes "geometry_steps lib ms mc bs bc = Inr p"
  shows "to_crs lib (EPSG 4326) (shapes_to_gdf lib ms mc) = Inr (gdf_mangrove p) \<and>
         crs (gdf_mangrove p) = Some (EPSG 4326) \<and>
         geometry (mangrove_buffer p) =
           map (geom_buffer lib (5 / 100)) (geometry (gdf_mangrove p)) \<and>
         length (geometry (mangrove_buffer p)) = length (geometry (gdf_mangrove p)) \<and>
         crs (mangrove_buffer p) = Some (EPSG 4326)"
proof -
  note u = geometry_steps_unfold[OF assms]
  have a: "to_crs lib (EPSG 4326) (shapes_to_gdf lib ms mc) = Inr (gdf_mangrove p)"
    using u(1) u(3) by simp
  have b: "crs (gdf_mangrove p) = Some (EPSG 4326)"
    using to_crs_Inr(1)[OF u(3)] .
  have c: "geometry (mangrove_buffer p) =
           map (geom_buffer lib (5 / 100)) (geometry (gdf_mangrove p))"
    by (simp add: u(5) set_geometry_def buffer_def buffer_distance_def)
  have d: "crs (mangrove_buffer p) = Some (EPSG 4326)"
    using b by (simp add: u(5) set_geometry_def)
  from a b c d show ?thesis by simp
qed

theorem buffer_layer_built_witness:
  "\<exists>p. geometry_steps box_lib mangrove_shapes_demo (Some (EPSG 4326))
          builtup_shapes_demo (Some (EPSG 3857)) = Inr p \<and>
       geometry (gdf_mangrove p) =
         [Box 0 0 (1 / 100) (1 / 100), Box (2 / 100) 0 (3 / 100) (1 / 100)] \<and>
       geometry (mangrove_buffer p) =
         map (geom_buffer box_lib (5 / 100)) (geometry (gdf_mangrove p)) \<and>
       geometry (mangrove_buffer p) =
         [Box (- (5 / 100)) (- (5 / 100)) (6 / 100) (6 / 100),
          Box (- (3 / 100)) (- (5 / 100)) (8 / 100) (6 / 100)] \<and>
       crs (mangrove_buffer p) = Some (EPSG 4326)"
proof -
  obtain p where run: "geometry_steps box_lib mangrove_shapes_demo (Some (EPSG 4326))
          builtup_shapes_demo (Some (EPSG 3857)) = Inr p"
    and g: "geometry (gdf_mangrove p) =
         [Box 0 0 (1 / 100) (1 / 100), Box (2 / 100) 0 (3 / 100) (1 / 100)]"
    using demo_run by simp
  from buffer_layer_built[OF run] have
    b: "geometry (mangrove_buffer p) =
         map (geom_buffer box_lib (5 / 100)) (geometry (gdf_mangrove p))"
    and c: "crs (mangrove_buffer p) = Some (EPSG 4326)"
    by blast+
  have d: "geometry (mangrove_buffer p) =
         [Box (- (5 / 100)) (- (5 / 100)) (6 / 100) (6 / 100),
          Box (- (3 / 100)) (- (5 / 100)) (8 / 100) (6 / 100)]"
    using b g by (simp add: box_lib_def)
  from run g b c d show ?thesis by blast
qed

subsection \<open>The statistics\<close>

lemma is_digit_digit_char: "is_digit (digit_char d)"
  unfolding is_digit_def digit_char_def by (rule nth_mem) simp

lemma show_nat_last: "show_nat n \<noteq> [] \<and> last (show_nat n) = digit_char (n mod 10)"
  by (subst (1 2) show_nat.simps) simp

lemma two_decimals_fmt_2f: "two_decimals (fmt_2f v)"
proof -
  define n where "n = nat (round_half_even (\<bar>v\<bar> * 100))"
  define pre where "pre = (if v < 0 then ''-'' else []) @ show_nat (n div 100)"
  have a: "fmt_2f v = pre @ ''.'' @ [digit_char (n mod 100 div 10), digit_char (n mod 10)]"
    by (simp add: fmt_2f_def Let_def n_def pre_def)
  have b: "pre \<noteq> []" and c: "is_digit (last pre)"
    using show_nat_last[of "n div 100"] by (simp_all add: pre_def is_digit_digit_char)
  show ?thesis
    unfolding two_decimals_def using a b c is_digit_digit_char by blast
qed

lemma stdout_print_stats:
  "stdout (print_stats kvs w) = stdout w @ map (\<lambda>(k, v). ''  '' @ k @ '': '' @ fmt_2f v) kvs"
proof (induction kvs arbitrary: w)
  case Nil
  show ?case by simp
next
  case (Cons kv kvs)
  obtain k v where kv: "kv = (k, v)" by (cases kv)
  show ?case by (simp add: kv Cons.IH print_def)
qed

lemma digit_val_digit_char: "d < 10 \<Longrightarrow> digit_val (digit_char d) = d"
proof -
  assume "d < 10"
  then have "d \<in> {0, 1, 2, 3, 4, 5, 6, 7, 8, 9}" by auto
  then show ?thesis
    by (auto simp add: digit_char_def digit_val_def)
qed

lemma read_nat_snoc: "read_nat (s @ [c]) = 10 * read_nat s + digit_val c"
  by (simp add: read_nat_def)

lemma read_nat_show_nat: "read_nat (show_nat n) = n"
proof (induction n rule: show_nat.induct)
  case (1 n)
  show ?case
  proof (cases "n < 10")
    case True
    then show ?thesis
      by (subst show_nat.simps) (simp add: read_nat_def digit_val_digit_char)
  next
    case False
    then have "read_nat (show_nat (n div 10)) = n div 10" by (rule "1.IH")
    then show ?thesis
      using False
      by (subst show_nat.simps) (simp add: read_nat_snoc digit_val_digit_char)
  qed
qed

lemma show_nat_digits: "c \<in> set (show_nat n) \<Longrightarrow> is_digit c"
proof (induction n rule: show_nat.induct)
  case (1 n)
  show ?case
  proof (cases "n < 10")
    case True
    with "1.prems" show ?thesis
      by (subst (asm) show_nat.simps) (simp add: is_digit_digit_char)
  next
    case False
    with "1.prems" have "c \<in> set (show_nat (n div 10)) \<or> c = digit_char (n mod 10)"
      by (subst (asm) show_nat.simps) auto
    then show ?thesis using "1.IH"[OF False] is_digit_digit_char by blast
  qed
qed

lemma round_half_even_near: "\<bar>of_int (round_half_even y) - y\<bar> \<le> 1 / 2"
proof -
  have "of_int \<lfloor>y\<rfloor> \<le> y" "y < of_int \<lfloor>y\<rfloor> + 1" by linarith+
  then show ?thesis
    unfolding round_half_even_def Let_def by (auto simp add: abs_le_iff)
qed

lemma round_half_even_nonneg: "0 \<le> y \<Longrightarrow> 0 \<le> round_half_even y"
  unfolding round_half_even_def Let_def by auto

lemma is_digit_not_punct: "is_digit c \<Longrightarrow> c \<noteq> CHR ''.'' \<and> c \<noteq> CHR ''-''"
  by (auto simp add: is_digit_def)

lemma read_2f_parts:
  assumes dig: "\<forall>c\<in>set ds. is_digit c" and ne: "ds \<noteq> []"
  shows "read_2f (ds @ ''.'' @ fs) = real (read_nat ds) + real (read_nat fs) / 100"
    and "read_2f (''-'' @ ds @ ''.'' @ fs) = - (real (read_nat ds) + real (read_nat fs) / 100)"
proof -
  have nd: "c \<noteq> CHR ''.''" if "c \<in> set ds" for c
    using dig that is_digit_not_punct by blast
  have "hd ds \<in> set ds" using ne by simp
  then have nm: "hd ds \<noteq> CHR ''-''"
    using dig is_digit_not_punct by blast
  have tw: "takeWhile (\<lambda>c. c \<noteq> CHR ''.'') (ds @ CHR ''.'' # fs) = ds"
  proof -
    have "takeWhile (\<lambda>c. c \<noteq> CHR ''.'') (ds @ CHR ''.'' # fs) =
        ds @ takeWhile (\<lambda>c. c \<noteq> CHR ''.'') (CHR ''.'' # fs)"
      by (rule takeWhile_append2) (rule nd)
    then show ?thesis by simp
  qed
  have h: "hd (ds @ CHR ''.'' # fs) = hd ds" using ne by simp
  have a: "read_2f (ds @ CHR ''.'' # fs) = real (read_nat ds) + real (read_nat fs) / 100"
    using nm ne by (simp add: read_2f_def Let_def tw)
  have b: "read_2f (CHR ''-'' # ds @ CHR ''.'' # fs) =
      - (real (read_nat ds) + real (read_nat fs) / 100)"
    by (simp add: read_2f_def Let_def tw)
  show "read_2f (ds @ ''.'' @ fs) = real (read_nat ds) + real (read_nat fs) / 100"
    using a by simp
  show "read_2f (''-'' @ ds @ ''.'' @ fs) = - (real (read_nat ds) + real (read_nat fs) / 100)"
    using b by simp
qed

lemma two_digits_value:
  "read_nat [digit_char (n mod 100 div 10), digit_char (n mod 10)] = n mod 100"
proof -
  have a: "n mod 100 div 10 < 10" and b: "n mod 10 < 10" by simp_all
  have "read_nat [digit_char (n mod 100 div 10), digit_char (n mod 10)] =
      10 * (n mod 100 div 10) + n mod 10"
    unfolding read_nat_def by (simp add: digit_val_digit_char[OF a] digit_val_digit_char[OF b])
  also have "\<dots> = 10 * (n mod 100 div 10) + n mod 100 mod 10"
    by (simp add: mod_mod_cancel)
  also have "\<dots> = n mod 100" by simp
  finally show ?thesis .
qed

lemma hundredths_value: "real (n div 100) + real (n mod 100) / 100 = real n / 100"
proof -
  have "n = 100 * (n div 100) + n mod 100" by simp
  then have "real n = 100 * real (n div 100) + real (n mod 100)"
    by (metis of_nat_add of_nat_mult of_nat_numeral)
  then show ?thesis by simp
qed

lemma fmt_2f_shape:
  "fmt_2f x = (if x < 0 then ''-'' else []) @
     show_nat (nat (round_half_even (\<bar>x\<bar> * 100)) div 100) @ ''.'' @
     [digit_char (nat (round_half_even (\<bar>x\<bar> * 100)) mod 100 div 10),
      digit_char (nat (round_half_even (\<bar>x\<bar> * 100)) mod 10)]"
  by (simp add: fmt_2f_def Let_def)

lemma read_2f_fmt_2f_value:
  "read_2f (fmt_2f x) =
     (if x < 0 then - 1 else 1) * (real (nat (round_half_even (\<bar>x\<bar> * 100))) / 100)"
proof -
  define n where "n = nat (round_half_even (\<bar>x\<bar> * 100))"
  let ?ds = "show_nat (n div 100)"
  let ?fs = "[digit_char (n mod 100 div 10), digit_char (n mod 10)]"
  have dig: "\<forall>c\<in>set ?ds. is_digit c"
    using show_nat_digits by blast
  have ne: "?ds \<noteq> []"
    using show_nat_last[of "n div 100"] by blast
  have val: "real (read_nat ?ds) + real (read_nat ?fs) / 100 = real n / 100"
    unfolding read_nat_show_nat two_digits_value by (rule hundredths_value)
  show ?thesis
  proof (cases "x < 0")
    case True
    have "fmt_2f x = ''-'' @ ?ds @ ''.'' @ ?fs"
      unfolding fmt_2f_shape n_def using True by simp
    then have "read_2f (fmt_2f x) = - (real n / 100)"
      using read_2f_parts(2)[OF dig ne, of ?fs] val by simp
    then show ?thesis using True by (simp add: n_def)
  next
    case False
    have "fmt_2f x = ?ds @ ''.'' @ ?fs"
      unfolding fmt_2f_shape n_def using False by simp
    then have "read_2f (fmt_2f x) = real n / 100"
      using read_2f_parts(1)[OF dig ne, of ?fs] val by simp
    then show ?thesis using False by (simp add: n_def)
  qed
qed

lemma read_2f_fmt_2f: "\<bar>read_2f (fmt_2f x) - x\<bar> \<le> 1 / 200"
proof -
  define n where "n = nat (round_half_even (\<bar>x\<bar> * 100))"
  have "0 \<le> round_half_even (\<bar>x\<bar> * 100)"
    by (rule round_half_even_nonneg) simp
  then have "real n = of_int (round_half_even (\<bar>x\<bar> * 100))"
    by (simp add: n_def)
  with round_half_even_near[of "\<bar>x\<bar> * 100"]
  have near: "\<bar>real n - \<bar>x\<bar> * 100\<bar> \<le> 1 / 2" by simp
  have v: "read_2f (fmt_2f x) = (if x < 0 then - 1 else 1) * (real n / 100)"
    unfolding n_def by (rule read_2f_fmt_2f_value)
  show ?thesis
  proof (cases "x < 0")
    case True
    with near have "\<bar>real n + x * 100\<bar> \<le> 1 / 2" by simp
    then have h: "\<bar>- (real n / 100) - x\<bar> \<le> 1 / 200" by linarith
    have e: "read_2f (fmt_2f x) = - (real n / 100)" using v True by simp
    show ?thesis unfolding e by (rule h)
  next
    case False
    with near have "\<bar>real n - x * 100\<bar> \<le> 1 / 2" by simp
    then have h: "\<bar>real n / 100 - x\<bar> \<le> 1 / 200" by linarith
    have e: "read_2f (fmt_2f x) = real n / 100" using v False by simp
    show ?thesis unfolding e by (rule h)
  qed
qed

lemma to_crs_differs:
  assumes "crs df = Some c" and "c \<noteq> t"
  shows "to_crs lib t df =
     Inr \<lparr>geometry = map (geom_transform lib c t) (geometry df), crs = Some t\<rparr>"
  using assms by (simp add: to_crs_def)

lemma demo_run_metric:
  "\<exists>p. geometry_steps box_lib_metric mangrove_shapes_demo (Some (EPSG 4326))
          builtup_shapes_demo (Some (EPSG 3857)) = Inr p \<and>
       geometry (gdf_mangrove p) =
         [Box 0 0 (1 / 100) (1 / 100), Box (2 / 100) 0 (3 / 100) (1 / 100)] \<and>
       geometry (gdf_builtup p) = [Box (1 / 100) 0 (2 / 100) (1 / 100)] \<and>
       geometry (overlap p) =
         [Box (1 / 100) 0 (2 / 100) (1 / 100), Box (1 / 100) 0 (2 / 100) (1 / 100)]"
  by (simp add: geometry_steps_def shapes_to_gdf_def mangrove_shapes_demo_def
      builtup_shapes_demo_def box_lib_metric_def box_lib_def box_shape_def box_transform_def
      to_crs_def set_geometry_def buffer_def buffer_distance_def overlay_def
      equal_area_crs_def area_sum_def Let_def)

text \<open>
  C9. In a run of the script the three layers of the statistics are the mangrove, the
  built-up and the overlap layer with every polygon transformed from EPSG:4326 to
  EPSG:6933. The dictionary holds, under its three labels and in this order, the sum of
  the areas of the polygons of each of these layers, divided by 1e6. The loop prints
  exactly three lines, each made of two blanks, the label, a colon and a blank, and the
  value under the format \<open>.2f\<close>. What this format prints ends in a point and two digits,
  and read back as a decimal number it is the value up to half a hundredth.
\<close>

theorem stats_report:
  assumes "geometry_steps lib ms mc bs bc = Inr p"
  shows "to_crs lib (EPSG 6933) (gdf_mangrove p) = Inr (gdf_mangrove_eq p) \<and>
         to_crs lib (EPSG 6933) (gdf_builtup p) = Inr (gdf_builtup_eq p) \<and>
         to_crs lib (EPSG 6933) (overlap p) = Inr (overlap_eq p) \<and>
         gdf_mangrove_eq p =
           \<lparr>geometry = map (geom_transform lib (EPSG 4326) (EPSG 6933)) (geometry (gdf_mangrove p)),
            crs = Some (EPSG 6933)\<rparr> \<and>
         gdf_builtup_eq p =
           \<lparr>geometry = map (geom_transform lib (EPSG 4326) (EPSG 6933)) (geometry (gdf_builtup p)),
            crs = Some (EPSG 6933)\<rparr> \<and>
         overlap_eq p =
           \<lparr>geometry = map (geom_transform lib (EPSG 4326) (EPSG 6933)) (geometry (overlap p)),
            crs = Some (EPSG 6933)\<rparr> \<and>
         stats p =
           [(''Mangrove area (km'' @ sup2 @ '')'',
             fl_div lib (fl_sum lib (map (geom_area lib) (geometry (gdf_mangrove_eq p)))) 1000000),
            (''Built-up area (km'' @ sup2 @ '')'',
             fl_div lib (fl_sum lib (map (geom_area lib) (geometry (gdf_builtup_eq p)))) 1000000),
            (''Built-up within 5 km (km'' @ sup2 @ '')'',
             fl_div lib (fl_sum lib (map (geom_area lib) (geometry (overlap_eq p)))) 1000000)] \<and>
         stdout (print_stats (stats p) w) =
           stdout w @
           [''  Mangrove area (km'' @ sup2 @ ''): '' @
              fmt_2f (fl_div lib
                (fl_sum lib (map (geom_area lib) (geometry (gdf_mangrove_eq p)))) 1000000),
            ''  Built-up area (km'' @ sup2 @ ''): '' @
              fmt_2f (fl_div lib
                (fl_sum lib (map (geom_area lib) (geometry (gdf_builtup_eq p)))) 1000000),
            ''  Built-up within 5 km (km'' @ sup2 @ ''): '' @
              fmt_2f (fl_div lib
                (fl_sum lib (map (geom_area lib) (geometry (overlap_eq p)))) 1000000)] \<and>
         length (stdout (print_stats (stats p) w)) = length (stdout w) + 3 \<and>
         two_decimals (fmt_2f x) \<and>
         \<bar>read_2f (fmt_2f x) - x\<bar> \<le> 1 / 200"
proof -
  note u = geometry_steps_unfold[OF assms]
  have a: "to_crs lib (EPSG 6933) (gdf_mangrove p) = Inr (gdf_mangrove_eq p)"
    "to_crs lib (EPSG 6933) (gdf_builtup p) = Inr (gdf_builtup_eq p)"
    "to_crs lib (EPSG 6933) (overlap p) = Inr (overlap_eq p)"
    using u(7,8,9) by (simp_all add: equal_area_crs_def)
  have cm: "crs (gdf_mangrove p) = Some (EPSG 4326)"
    and cb: "crs (gdf_builtup p) = Some (EPSG 4326)"
    using to_crs_Inr(1)[OF u(3)] to_crs_Inr(1)[OF u(4)] by simp_all
  have co: "crs (overlap p) = Some (EPSG 4326)"
    using cb by (simp add: u(6) overlay_def)
  have ne: "EPSG 4326 \<noteq> EPSG 6933" by simp
  have g: "gdf_mangrove_eq p =
           \<lparr>geometry = map (geom_transform lib (EPSG 4326) (EPSG 6933)) (geometry (gdf_mangrove p)),
            crs = Some (EPSG 6933)\<rparr>"
    "gdf_builtup_eq p =
           \<lparr>geometry = map (geom_transform lib (EPSG 4326) (EPSG 6933)) (geometry (gdf_builtup p)),
            crs = Some (EPSG 6933)\<rparr>"
    "overlap_eq p =
           \<lparr>geometry = map (geom_transform lib (EPSG 4326) (EPSG 6933)) (geometry (overlap p)),
            crs = Some (EPSG 6933)\<rparr>"
    using a to_crs_differs[OF cm ne, of lib] to_crs_differs[OF cb ne, of lib]
      to_crs_differs[OF co ne, of lib]
    by simp_all
  have b: "stats p =
           [(''Mangrove area (km'' @ sup2 @ '')'',
             fl_div lib (fl_sum lib (map (geom_area lib) (geometry (gdf_mangrove_eq p)))) 1000000),
            (''Built-up area (km'' @ sup2 @ '')'',
             fl_div lib (fl_sum lib (map (geom_area lib) (geometry (gdf_builtup_eq p)))) 1000000),
            (''Built-up within 5 km (km'' @ sup2 @ '')'',
             fl_div lib (fl_sum lib (map (geom_area lib) (geometry (overlap_eq p)))) 1000000)]"
    using u(10) by (simp add: area_sum_def)
  have c: "stdout (print_stats (stats p) w) =
           stdout w @
           [''  Mangrove area (km'' @ sup2 @ ''): '' @
              fmt_2f (fl_div lib
                (fl_sum lib (map (geom_area lib) (geometry (gdf_mangrove_eq p)))) 1000000),
            ''  Built-up area (km'' @ sup2 @ ''): '' @
              fmt_2f (fl_div lib
                (fl_sum lib (map (geom_area lib) (geometry (gdf_builtup_eq p)))) 1000000),
            ''  Built-up within 5 km (km'' @ sup2 @ ''): '' @
              fmt_2f (fl_div lib
                (fl_sum lib (map (geom_area lib) (geometry (overlap_eq p)))) 1000000)]"
    unfolding stdout_print_stats b by simp
  have d: "length (stdout (print_stats (stats p) w)) = length (stdout w) + 3"
    unfolding c by simp
  from a g b c d two_decimals_fmt_2f[of x] read_2f_fmt_2f[of x] show ?thesis by blast
qed

theorem stats_report_witness:
  "\<exists>p. geometry_steps box_lib_metric mangrove_shapes_demo (Some (EPSG 4326))
          builtup_shapes_demo (Some (EPSG 3857)) = Inr p \<and>
       gdf_mangrove_eq p =
         \<lparr>geometry = [Box 0 0 1110 1110, Box 2220 0 3330 1110], crs = Some (EPSG 6933)\<rparr> \<and>
       gdf_builtup_eq p = \<lparr>geometry = [Box 1110 0 2220 1110], crs = Some (EPSG 6933)\<rparr> \<and>
       map snd (stats p) = [24642 / 10000, 12321 / 10000, 24642 / 10000] \<and>
       stdout (print_stats (stats p) world_empty) =
         [''  Mangrove area (km'' @ sup2 @ ''): 2.46'',
          ''  Built-up area (km'' @ sup2 @ ''): 1.23'',
          ''  Built-up within 5 km (km'' @ sup2 @ ''): 2.46''] \<and>
       \<bar>read_2f (fmt_2f (12321 / 10000)) - 12321 / 10000\<bar> \<le> 1 / 200 \<and>
       fmt_2f (1 / 8) = ''0.12''"
proof -
  obtain p where run: "geometry_steps box_lib_metric mangrove_shapes_demo (Some (EPSG 4326))
          builtup_shapes_demo (Some (EPSG 3857)) = Inr p"
    and g: "geometry (gdf_mangrove p) =
         [Box 0 0 (1 / 100) (1 / 100), Box (2 / 100) 0 (3 / 100) (1 / 100)]"
       "geometry (gdf_builtup p) = [Box (1 / 100) 0 (2 / 100) (1 / 100)]"
       "geometry (overlap p) =
         [Box (1 / 100) 0 (2 / 100) (1 / 100), Box (1 / 100) 0 (2 / 100) (1 / 100)]"
    using demo_run_metric by blast
  note T = stats_report[OF run, of world_empty "12321 / 10000"]
  have tr: "geom_transform box_lib_metric (EPSG 4326) (EPSG 6933) g = box_scale 111000 g" for g
    by (simp add: box_lib_metric_def box_lib_def box_transform_def)
  have ar: "geom_area box_lib_metric = box_area" "fl_sum box_lib_metric = sum_list"
    "fl_div box_lib_metric = (\<lambda>a b. a / b)"
    by (simp_all add: box_lib_metric_def box_lib_def)
  from T have e1: "gdf_mangrove_eq p =
      \<lparr>geometry = map (geom_transform box_lib_metric (EPSG 4326) (EPSG 6933))
          (geometry (gdf_mangrove p)), crs = Some (EPSG 6933)\<rparr>"
    and e2: "gdf_builtup_eq p =
      \<lparr>geometry = map (geom_transform box_lib_metric (EPSG 4326) (EPSG 6933))
          (geometry (gdf_builtup p)), crs = Some (EPSG 6933)\<rparr>"
    and e3: "overlap_eq p =
      \<lparr>geometry = map (geom_transform box_lib_metric (EPSG 4326) (EPSG 6933))
          (geometry (overlap p)), crs = Some (EPSG 6933)\<rparr>"
    by blast+
  have m: "gdf_mangrove_eq p =
         \<lparr>geometry = [Box 0 0 1110 1110, Box 2220 0 3330 1110], crs = Some (EPSG 6933)\<rparr>"
    unfolding e1 g by (simp add: tr)
  have b: "gdf_builtup_eq p = \<lparr>geometry = [Box 1110 0 2220 1110], crs = Some (EPSG 6933)\<rparr>"
    unfolding e2 g by (simp add: tr)
  have o: "overlap_eq p =
      \<lparr>geometry = [Box 1110 0 2220 1110, Box 1110 0 2220 1110], crs = Some (EPSG 6933)\<rparr>"
    unfolding e3 g by (simp add: tr)
  have v: "fl_div box_lib_metric
        (fl_sum box_lib_metric (map (geom_area box_lib_metric) (geometry (gdf_mangrove_eq p))))
        1000000 = 24642 / 10000"
    "fl_div box_lib_metric
        (fl_sum box_lib_metric (map (geom_area box_lib_metric) (geometry (gdf_builtup_eq p))))
        1000000 = 12321 / 10000"
    "fl_div box_lib_metric
        (fl_sum box_lib_metric (map (geom_area box_lib_metric) (geometry (overlap_eq p))))
        1000000 = 24642 / 10000"
    unfolding m b o ar by simp_all
  from T have s0: "stats p =
           [(''Mangrove area (km'' @ sup2 @ '')'',
             fl_div box_lib_metric (fl_sum box_lib_metric
               (map (geom_area box_lib_metric) (geometry (gdf_mangrove_eq p)))) 1000000),
            (''Built-up area (km'' @ sup2 @ '')'',
             fl_div box_lib_metric (fl_sum box_lib_metric
               (map (geom_area box_lib_metric) (geometry (gdf_builtup_eq p)))) 1000000),
            (''Built-up within 5 km (km'' @ sup2 @ '')'',
             fl_div box_lib_metric (fl_sum box_lib_metric
               (map (geom_area box_lib_metric) (geometry (overlap_eq p)))) 1000000)]"
    by blast
  have s: "map snd (stats p) = [24642 / 10000, 12321 / 10000, 24642 / 10000]"
    unfolding s0 v by simp
  have f: "fmt_2f (24642 / 10000) = ''2.46''" "fmt_2f (12321 / 10000) = ''1.23''"
    "fmt_2f (1 / 8) = ''0.12''"
    by (simp_all add: fmt_2f_def round_half_even_def Let_def show_nat.simps digit_char_def)
  from T have c: "stdout (print_stats (stats p) world_empty) =
           stdout world_empty @
           [''  Mangrove area (km'' @ sup2 @ ''): '' @
              fmt_2f (fl_div box_lib_metric (fl_sum box_lib_metric
                (map (geom_area box_lib_metric) (geometry (gdf_mangrove_eq p)))) 1000000),
            ''  Built-up area (km'' @ sup2 @ ''): '' @
              fmt_2f (fl_div box_lib_metric (fl_sum box_lib_metric
                (map (geom_area box_lib_metric) (geometry (gdf_builtup_eq p)))) 1000000),
            ''  Built-up within 5 km (km'' @ sup2 @ ''): '' @
              fmt_2f (fl_div box_lib_metric (fl_sum box_lib_metric
                (map (geom_area box_lib_metric) (geometry (overlap_eq p)))) 1000000)]"
    by blast
  have l: "stdout (print_stats (stats p) world_empty) =
         [''  Mangrove area (km'' @ sup2 @ ''): 2.46'',
          ''  Built-up area (km'' @ sup2 @ ''): 1.23'',
          ''  Built-up within 5 km (km'' @ sup2 @ ''): 2.46'']"
    unfolding c v f by (simp add: world_empty_def)
  from T have r: "\<bar>read_2f (fmt_2f (12321 / 10000)) - 12321 / 10000\<bar> \<le> 1 / 200"
    by blast
  show ?thesis
    by (rule exI[of _ p]) (intro conjI run m b s l r f(3))
qed

subsection \<open>The overlay\<close>

lemma map_filter_all_None: "(\<forall>b\<in>set ys. f b = None) \<Longrightarrow> List.map_filter f ys = []"
  by (induction ys) simp_all

lemma map_filter_single:
  assumes i: "i < length xs" and y: "f (xs ! i) = Some y"
    and others: "\<forall>j<length xs. j \<noteq> i \<longrightarrow> f (xs ! j) = None"
  shows "List.map_filter f xs = [y]"
proof -
  have split: "xs = take i xs @ xs ! i # drop (Suc i) xs"
    using i by (rule id_take_nth_drop)
  have before: "List.map_filter f (take i xs) = []"
  proof (rule map_filter_all_None, rule ballI)
    fix b assume "b \<in> set (take i xs)"
    then obtain j where "j < length (take i xs)" and "b = take i xs ! j"
      by (auto simp add: in_set_conv_nth)
    then have "j < i" "j < length xs" "b = xs ! j" using i by simp_all
    then show "f b = None" using others by simp
  qed
  have after: "List.map_filter f (drop (Suc i) xs) = []"
  proof (rule map_filter_all_None, rule ballI)
    fix b assume "b \<in> set (drop (Suc i) xs)"
    then obtain j where j: "j < length (drop (Suc i) xs)" and b: "b = drop (Suc i) xs ! j"
      by (auto simp add: in_set_conv_nth)
    from j have lt: "Suc i + j < length xs" by simp
    from b lt have "b = xs ! (Suc i + j)" by simp
    then show "f b = None" using others lt by simp
  qed
  have "List.map_filter f xs =
      List.map_filter f (take i xs) @ List.map_filter f (xs ! i # drop (Suc i) xs)"
    by (subst split) (simp only: map_filter_append)
  then show ?thesis using before after y by simp
qed

lemma overlay_single_bounded:
  assumes one: "geometry df2 = [m]"
    and le: "\<forall>a g. geom_intersection lib a m = Some g \<longrightarrow> ar g \<le> ar a"
    and nonneg: "\<forall>a. (0::real) \<le> ar a"
  shows "sum_list (map ar (geometry (overlay lib df1 df2))) \<le> sum_list (map ar (geometry df1))"
proof -
  have "sum_list (map ar (concat (map (\<lambda>a. List.map_filter (geom_intersection lib a) [m]) xs)))
      \<le> sum_list (map ar xs)" for xs
  proof (induction xs)
    case Nil
    show ?case by simp
  next
    case (Cons a xs)
    show ?case
    proof (cases "geom_intersection lib a m")
      case None
      then show ?thesis using Cons.IH nonneg[rule_format, of a] by simp
    next
      case (Some g)
      then show ?thesis using Cons.IH le[rule_format, OF Some] by simp
    qed
  qed
  then show ?thesis by (simp add: overlay_def one)
qed

text \<open>
  C2, as the overlay works. If no row of the first layer has a polygonal intersection
  with any row of the second, the overlay has no rows. The overlay of a layer with itself
  is the layer again when every row meets itself in itself and no two different rows have
  a polygonal intersection.
\<close>

theorem overlay_disjoint_and_self:
  "((\<forall>a\<in>set (geometry df1). \<forall>b\<in>set (geometry df2). geom_intersection lib a b = None) \<longrightarrow>
      geometry (overlay lib df1 df2) = []) \<and>
   ((\<forall>i<length (geometry df). \<forall>j<length (geometry df).
        geom_intersection lib (geometry df ! i) (geometry df ! j) =
          (if i = j then Some (geometry df ! i) else None)) \<longrightarrow>
      overlay lib df df = df)"
proof (intro conjI impI)
  assume "\<forall>a\<in>set (geometry df1). \<forall>b\<in>set (geometry df2). geom_intersection lib a b = None"
  then have r: "List.map_filter (geom_intersection lib a) (geometry df2) = []"
    if "a \<in> set (geometry df1)" for a
    using that by (intro map_filter_all_None) blast
  show "geometry (overlay lib df1 df2) = []"
    by (simp add: overlay_def r)
next
  let ?xs = "geometry df"
  assume h: "\<forall>i<length ?xs. \<forall>j<length ?xs.
        geom_intersection lib (?xs ! i) (?xs ! j) = (if i = j then Some (?xs ! i) else None)"
  have row: "List.map_filter (geom_intersection lib a) ?xs = [a]" if "a \<in> set ?xs" for a
  proof -
    from that obtain i where i: "i < length ?xs" and a: "a = ?xs ! i"
      by (auto simp add: in_set_conv_nth)
    have y: "geom_intersection lib (?xs ! i) (?xs ! i) = Some (?xs ! i)"
      using h[rule_format, OF i i] by simp
    have o: "\<forall>j<length ?xs. j \<noteq> i \<longrightarrow> geom_intersection lib (?xs ! i) (?xs ! j) = None"
    proof (intro allI impI)
      fix j assume j: "j < length ?xs" and ne: "j \<noteq> i"
      from h[rule_format, OF i j] ne
      show "geom_intersection lib (?xs ! i) (?xs ! j) = None" by simp
    qed
    have "List.map_filter (geom_intersection lib (?xs ! i)) ?xs = [?xs ! i]"
      by (rule map_filter_single[OF i y o])
    then show ?thesis using a by simp
  qed
  have m: "map (\<lambda>a. List.map_filter (geom_intersection lib a) ?xs) ?xs = map (\<lambda>a. [a]) ?xs"
    by (rule map_cong[OF refl]) (rule row)
  have c: "concat (map (\<lambda>a. List.map_filter (geom_intersection lib a) ?xs) ?xs) = ?xs"
    unfolding m by simp
  show "overlay lib df df = df"
    unfolding overlay_def c by simp
qed

theorem overlay_disjoint_and_self_witness:
  "geom_intersection box_lib (Box 0 0 1 1) (Box 2 2 3 3) = None \<and>
   geometry (overlay box_lib \<lparr>geometry = [Box 0 0 1 1], crs = Some (EPSG 4326)\<rparr>
                             \<lparr>geometry = [Box 2 2 3 3], crs = Some (EPSG 4326)\<rparr>) = [] \<and>
   overlay box_lib \<lparr>geometry = [Box 0 0 1 1, Box 2 2 3 3], crs = Some (EPSG 4326)\<rparr>
                   \<lparr>geometry = [Box 0 0 1 1, Box 2 2 3 3], crs = Some (EPSG 4326)\<rparr> =
     \<lparr>geometry = [Box 0 0 1 1, Box 2 2 3 3], crs = Some (EPSG 4326)\<rparr>"
proof -
  let ?d1 = "\<lparr>geometry = [Box 0 0 1 1], crs = Some (EPSG 4326)\<rparr>"
  let ?d2 = "\<lparr>geometry = [Box 2 2 3 3], crs = Some (EPSG 4326)\<rparr>"
  let ?d = "\<lparr>geometry = [Box 0 0 1 1, Box 2 2 3 3], crs = Some (EPSG 4326)\<rparr>"
  have a: "\<forall>a\<in>set (geometry ?d1). \<forall>b\<in>set (geometry ?d2). geom_intersection box_lib a b = None"
    by (simp add: box_lib_def)
  have b: "\<forall>i<length (geometry ?d). \<forall>j<length (geometry ?d).
        geom_intersection box_lib (geometry ?d ! i) (geometry ?d ! j) =
          (if i = j then Some (geometry ?d ! i) else None)"
    by (simp add: box_lib_def numeral_2_eq_2 All_less_Suc)
  note T1 = overlay_disjoint_and_self[where lib = box_lib and ?df1.0 = ?d1 and ?df2.0 = ?d2
      and df = ?d]
  from T1 a have c: "geometry (overlay box_lib ?d1 ?d2) = []" by blast
  from T1 b have d: "overlay box_lib ?d ?d = ?d" by blast
  have e: "geom_intersection box_lib (Box 0 0 1 1) (Box 2 2 3 3) = None"
    by (simp add: box_lib_def)
  from e c d show ?thesis by simp
qed

text \<open>
  C2 as stated fails on a layer whose rows overlap, as the rows of a buffer layer do: two
  overlapping squares overlaid with themselves give four rows, the two squares and twice
  the square they share.
\<close>

theorem overlay_self_overlapping:
  "overlay box_lib \<lparr>geometry = [Box 0 0 2 2, Box 1 1 3 3], crs = Some (EPSG 4326)\<rparr>
                   \<lparr>geometry = [Box 0 0 2 2, Box 1 1 3 3], crs = Some (EPSG 4326)\<rparr> =
     \<lparr>geometry = [Box 0 0 2 2, Box 1 1 2 2, Box 1 1 2 2, Box 1 1 3 3], crs = Some (EPSG 4326)\<rparr> \<and>
   overlay box_lib \<lparr>geometry = [Box 0 0 2 2, Box 1 1 3 3], crs = Some (EPSG 4326)\<rparr>
                   \<lparr>geometry = [Box 0 0 2 2, Box 1 1 3 3], crs = Some (EPSG 4326)\<rparr> \<noteq>
     \<lparr>geometry = [Box 0 0 2 2, Box 1 1 3 3], crs = Some (EPSG 4326)\<rparr>"
  by (simp add: overlay_def box_lib_def)

subsection \<open>The statistics on the three-cell raster\<close>

text \<open>
  C4. On the three-cell raster the two mangrove cells are vectorised as two polygons and
  buffered one by one. Both buffers contain the built-up cell, so the overlay has the
  built-up cell twice, and the statistic \<open>Built-up within 5 km\<close> is twice the statistic
  \<open>Built-up area\<close>: positive, but not bounded by the total built-up area.
\<close>

theorem builtup_within_buffer_counted_twice:
  "case geometry_steps box_lib mangrove_shapes_demo (Some (EPSG 4326))
          builtup_shapes_demo (Some (EPSG 4326)) of
     Inl err \<Rightarrow> False
   | Inr p \<Rightarrow>
       geometry (gdf_builtup p) = [Box (1 / 100) 0 (2 / 100) (1 / 100)] \<and>
       geometry (mangrove_buffer p) =
         [Box (- (5 / 100)) (- (5 / 100)) (6 / 100) (6 / 100),
          Box (- (3 / 100)) (- (5 / 100)) (8 / 100) (6 / 100)] \<and>
       geometry (overlap p) =
         [Box (1 / 100) 0 (2 / 100) (1 / 100), Box (1 / 100) 0 (2 / 100) (1 / 100)] \<and>
       map snd (stats p) = [2 / 10000 / 1000000, 1 / 10000 / 1000000, 2 / 10000 / 1000000] \<and>
       0 < snd (stats p ! 2) \<and>
       snd (stats p ! 1) < snd (stats p ! 2)"
  by (simp add: geometry_steps_def shapes_to_gdf_def mangrove_shapes_demo_def
      builtup_shapes_demo_def box_lib_def box_shape_def to_crs_def set_geometry_def
      buffer_def buffer_distance_def overlay_def equal_area_crs_def area_sum_def Let_def)

end
